theory Spec2Isabelle
  imports Main "HOL-Library.Word"
begin

section \<open>Data model\<close>

text \<open>
  The broker exchanges envelopes (\<open>query\<close>) that carry either a command or a message.
  The declarations of \<open>query\<close>, \<open>commandBlock\<close> and the message payload, and the helper
  methods \<open>validate\<close>, \<open>checkEngagement\<close>, \<open>engageChk\<close> and \<open>registerChk\<close>, are
  defined in a file of the repository that is not among the sources. The records below
  hold the fields that \<open>priscilla.go\<close> and the dispatcher read and write; the helper
  methods are parameters of the model (record \<open>externals\<close>).
\<close>

text \<open>Modelled from the spec: the command payload, with the fields the dispatcher
  reads (\<open>cmd.Action\<close>, \<open>cmd.Id\<close>, \<open>cmd.Type\<close>, \<open>cmd.Data\<close>, \<open>cmd.Array\<close>,
  \<open>cmd.Options\<close>); the struct declaration is missing from the sources.\<close>

record commandBlock =
  c_Action :: string
  c_Id :: string
  c_Type :: string
  c_Data :: string
  c_Array :: "string list"
  c_Options :: "string list"

text \<open>Modelled from the spec: the message payload (free-form chat text plus the
  originating room); the struct declaration is missing from the sources, which only
  dereference the pointer and hand it to \<open>handleMessage\<close>.\<close>

record messageBlock =
  m_Message :: string
  m_Room :: string

text \<open>Modelled from the spec: the envelope. \<open>Command\<close> and \<open>Message\<close> are pointers
  in the source, so each may be nil (\<open>None\<close>).\<close>

record query =
  q_Type :: string
  q_Source :: string
  q_To :: string
  q_Command :: "commandBlock option"
  q_Message :: "messageBlock option"

text \<open>A \<open>*json.Encoder\<close> and a \<open>chan string\<close> are identified by an address.\<close>

type_synonym encoder = nat
type_synonym chan = nat

record dispatcherRequest =
  Query :: query
  Encoder :: "encoder option"
  EngageResp :: "chan option"

text \<open>A compiled \<open>*regexp.Regexp\<close>, identified by the expression it was compiled
  from.\<close>

datatype regexp = Regexp string

record activeResponderConfig =
  ar_regex :: regexp
  ar_source :: string
  ar_id :: string
  ar_matchNext :: bool
  ar_helpCmd :: string
  ar_help :: string

record helpInfo =
  hi_helpCmd :: string
  hi_helpMsg :: string
  hi_noPrefix :: bool
  hi_mention :: bool

record passiveResponderConfig =
  pr_Name :: string
  pr_Match :: "string list"
  pr_MentionMatch :: "string list"
  pr_NoPrefix :: bool
  pr_FallThrough :: bool
  pr_Cmd :: string
  pr_Args :: "string list"
  pr_Help :: string
  pr_HelpCmds :: "string list"
  pr_HelpMentionCmds :: "string list"
  pr_regex :: "regexp list"
  pr_mRegex :: "regexp list"
  pr_substitute :: "nat \<rightharpoonup> bool"
  pr_roomParam :: "nat \<rightharpoonup> bool"

text \<open>
  The global registries of \<open>priscilla.go\<close>. The passive lists hold pointers into
  \<open>conf.Responders.Passive\<close>; a pointer is the index of the responder in that slice.
  \<open>unhandledPResponders\<close> is declared in the source but never created or used.
\<close>

record registry =
  prefixPResponders :: "nat list"
  noPrefixPResponders :: "nat list"
  mentionPResponders :: "nat list"
  prefixAResponders :: "activeResponderConfig list"
  noPrefixAResponders :: "activeResponderConfig list"
  mentionAResponders :: "activeResponderConfig list"
  unhandledAResponders :: "activeResponderConfig list"
  help_list :: "helpInfo list"

text \<open>The part of \<open>config\<close> that startup and the dispatcher use. \<open>Responders\<close> is a
  pointer (\<open>None\<close> when the configuration file has no such key).\<close>

record config =
  conf_Help :: string
  conf_Secret :: string
  conf_Responders :: "passiveResponderConfig list option"
  conf_helpRegex :: "regexp option"

text \<open>
  The functions the model takes as parameters: the four helper methods of the missing
  file, each returning \<open>None\<close> for a nil error and \<open>Some reason\<close> otherwise, and
  \<open>regexp.Compile\<close> of the Go library (\<open>Inl\<close> the error).
\<close>

record externals =
  validate :: "query \<Rightarrow> string option"
  checkEngagement :: "query \<Rightarrow> string option"
  engageChk :: "commandBlock \<Rightarrow> string \<Rightarrow> string \<Rightarrow> string option"
  registerChk :: "commandBlock \<Rightarrow> string option"
  regexpCompile :: "string \<Rightarrow> string + regexp"

section \<open>Identifier generation\<close>

text \<open>
  \<open>generateId\<close> allocates eight zero bytes, calls \<open>io.ReadFull(rand.Reader, b)\<close>
  ignoring its result, and formats the buffer with \<open>%x\<close>. The argument of the model is
  the byte sequence the reader delivered for this call: fewer than eight bytes when the
  read failed. \<open>readFull\<close> overwrites a prefix of the buffer and leaves the rest.
\<close>

definition readFull :: "8 word list \<Rightarrow> 8 word list \<Rightarrow> 8 word list" where
  "readFull delivered b = take (length b) delivered @ drop (length delivered) b"

definition hexChars :: string where
  "hexChars = ''0123456789abcdef''"

definition hexDigit :: "nat \<Rightarrow> char" where
  "hexDigit n = hexChars ! (n mod 16)"

definition hexByte :: "8 word \<Rightarrow> string" where
  "hexByte w = [hexDigit (unat w div 16), hexDigit (unat w mod 16)]"

definition sprintf_x :: "8 word list \<Rightarrow> string" where
  "sprintf_x b = concat (map hexByte b)"

definition generateId :: "8 word list \<Rightarrow> string" where
  "generateId delivered = sprintf_x (readFull delivered (replicate 8 0))"

section \<open>The dispatcher\<close>

datatype level = Debug | Info | Warn | Error

text \<open>What one iteration of the dispatcher does to the outside: log lines (level and
  the fixed text of the line), sends on and closing of an engagement reply channel,
  envelopes encoded to a connection, goroutines started, and the send on the quit
  channel that follows the loop.\<close>

datatype effect =
    Log level string
  | ChanSend chan string
  | ChanClose chan
  | Encode encoder query
  | GoHandleCommand commandBlock string
  | GoHandleMessage messageBlock string
  | QuitSend

text \<open>The dispatcher's state: its local connection table, the global registries it
  appends to, and the number of reads made from the random source so far.\<close>

record dstate =
  connMap :: "string \<rightharpoonup> encoder"
  reg :: registry
  randReads :: nat

text \<open>
  How one iteration ends: the loop goes on to the next receive (\<open>Next\<close>), the process
  exits in \<open>logger.Error.Fatal\<close>, a nil pointer or an index out of range panics, a send
  on a nil channel blocks for ever, the identifier loop never finds a free identifier,
  or the loop is left (\<open>LoopExit\<close>, what a \<open>break\<close> or \<open>return\<close> in the body would
  give).
\<close>

datatype outcome =
    Next dstate "effect list"
  | FatalExit "effect list"
  | Panic "effect list"
  | Blocked dstate "effect list"
  | Spin
  | LoopExit dstate "effect list"

text \<open>The collision loop \<open>for _, ok := connMap[id]; ok; _, ok = connMap[id]\<close>: the
  \<open>n\<close>-th read of the random source delivers \<open>rnd n\<close>. The loop need not end, so the
  result is an option.\<close>

partial_function (option) uniqueId ::
  "(string \<rightharpoonup> encoder) \<Rightarrow> (nat \<Rightarrow> 8 word list) \<Rightarrow> nat \<Rightarrow> string \<Rightarrow> (string \<times> nat) option" where
  "uniqueId cm rnd n ident =
     (case cm ident of
        Some e \<Rightarrow> uniqueId cm rnd (Suc n) (generateId (rnd n))
      | None \<Rightarrow> Some (ident, n))"

definition proceedQuery :: "string \<Rightarrow> query" where
  "proceedQuery ident =
     \<lparr>q_Type = ''command'', q_Source = ''server'', q_To = ident,
      q_Command = Some \<lparr>c_Action = ''proceed'', c_Id = '''', c_Type = '''', c_Data = ident,
                        c_Array = [], c_Options = []\<rparr>,
      q_Message = None\<rparr>"

definition terminateQuery :: "string \<Rightarrow> string \<Rightarrow> query" where
  "terminateQuery dest reason =
     \<lparr>q_Type = ''command'', q_Source = ''server'', q_To = dest,
      q_Command = Some \<lparr>c_Action = ''terminate'', c_Id = '''', c_Type = '''', c_Data = reason,
                        c_Array = [], c_Options = []\<rparr>,
      q_Message = None\<rparr>"

definition engage ::
  "externals \<Rightarrow> string \<Rightarrow> (nat \<Rightarrow> 8 word list) \<Rightarrow> dstate \<Rightarrow> dispatcherRequest \<Rightarrow> commandBlock \<Rightarrow> outcome" where
  "engage X secret rnd s req cmd =
     (let q = Query req in
      case Encoder req of
        None \<Rightarrow> FatalExit [Log Error ''No connection provided for engagement'',
                            Log Error ''Bad code, check code ininitialize()'']
      | Some enc \<Rightarrow>
          (case engageChk X cmd (q_Source q) secret of
             None \<Rightarrow>
               (let start = (if q_Source q = ''''
                             then (generateId (rnd (randReads s)), Suc (randReads s))
                             else (q_Source q, randReads s))
                in case uniqueId (connMap s) rnd (snd start) (fst start) of
                     None \<Rightarrow> Spin
                   | Some (ident, n) \<Rightarrow>
                       (let s' = s\<lparr>connMap := (connMap s)(ident \<mapsto> enc), randReads := n\<rparr>;
                            logs = (if ident \<noteq> q_Source q \<and> q_Source q \<noteq> ''''
                                    then [Log Warn ''Requester's source id already taken, assign new source ID: '']
                                    else [])
                                   @ [Log Info ''Engagement accepted: '']
                        in case EngageResp req of
                             None \<Rightarrow> Blocked s' logs
                           | Some ch \<Rightarrow>
                               Next s' (logs @ [ChanSend ch ident, ChanClose ch,
                                                Encode enc (proceedQuery ident)])))
           | Some err \<Rightarrow>
               (case EngageResp req of
                  None \<Rightarrow> Blocked s [Log Error ''Invalid engagement request'']
                | Some ch \<Rightarrow>
                    Next s [Log Error ''Invalid engagement request'',
                            ChanSend ch '''', ChanClose ch,
                            Encode enc (terminateQuery (q_Source q) err)])))"

definition disengage :: "dstate \<Rightarrow> query \<Rightarrow> outcome" where
  "disengage s q =
     Next (if q_Source q \<noteq> '''' then s\<lparr>connMap := (connMap s)(q_Source q := None)\<rparr> else s)
          [Log Info ''Connection disengaged: '']"

text \<open>The loop over \<open>cmd.Options\<close> that sets \<open>ar.matchNext\<close>.\<close>

fun matchNextOf :: "string list \<Rightarrow> bool \<Rightarrow> bool" where
  "matchNextOf [] m = m"
| "matchNextOf (option # rest) m =
     matchNextOf rest (if option = ''fallthrough'' then True else m)"

definition pushHelp :: "helpInfo \<Rightarrow> registry \<Rightarrow> registry" where
  "pushHelp h r = r\<lparr>help_list := help_list r @ [h]\<rparr>"

definition register :: "externals \<Rightarrow> dstate \<Rightarrow> query \<Rightarrow> commandBlock \<Rightarrow> outcome" where
  "register X s q cmd =
     (case registerChk X cmd of
        Some err \<Rightarrow> Next s [Log Debug ''Register command received:'',
                            Log Error ''Invalid register command:'']
      | None \<Rightarrow>
          (case regexpCompile X (c_Data cmd) of
             Inl err \<Rightarrow> Next s [Log Debug ''Register command received:'',
                                Log Error ''Error compiling regex:'']
           | Inr rx \<Rightarrow>
               (case c_Array cmd of
                  a0 # a1 # others \<Rightarrow>
                    (let ar = \<lparr>ar_regex = rx, ar_source = q_Source q, ar_id = c_Id cmd,
                               ar_matchNext = matchNextOf (c_Options cmd) False,
                               ar_helpCmd = a0, ar_help = a1\<rparr>;
                         helpMsg = \<lparr>hi_helpCmd = a0, hi_helpMsg = a1,
                                    hi_noPrefix = False, hi_mention = False\<rparr>;
                         r = reg s;
                         r' = (if c_Type cmd = ''prefix'' then
                                 (pushHelp helpMsg r)
                                   \<lparr>prefixAResponders := prefixAResponders r @ [ar]\<rparr>
                               else if c_Type cmd = ''noprefix'' then
                                 (pushHelp (helpMsg\<lparr>hi_noPrefix := True\<rparr>) r)
                                   \<lparr>noPrefixAResponders := noPrefixAResponders r @ [ar]\<rparr>
                               else if c_Type cmd = ''mention'' then
                                 (pushHelp (helpMsg\<lparr>hi_mention := True\<rparr>) r)
                                   \<lparr>mentionAResponders := mentionAResponders r @ [ar]\<rparr>
                               else if c_Type cmd = ''unhandled'' then
                                 r\<lparr>unhandledAResponders := unhandledAResponders r @ [ar]\<rparr>
                               else r)
                     in Next (s\<lparr>reg := r'\<rparr>)
                             [Log Debug ''Register command received:'',
                              Log Debug ''Active adapter registered:''])
                | _ \<Rightarrow> Panic [Log Debug ''Register command received:''])))"

definition routeMessage :: "dstate \<Rightarrow> query \<Rightarrow> outcome" where
  "routeMessage s q =
     (if q_To q \<noteq> '''' \<and> q_To q \<noteq> ''server'' then
        (case q_Message q of
           None \<Rightarrow> Panic []
         | Some m \<Rightarrow>
             (case connMap s (q_To q) of
                Some enc \<Rightarrow> Next s [Log Debug ''Responder message received:'',
                                    Log Debug ''Query source:'',
                                    Encode enc q]
              | None \<Rightarrow> Next s [Log Debug ''Responder message received:'',
                                Log Debug ''Query source:'',
                                Log Error ''Cannot find adapter source for'']))
      else
        (case q_Message q of
           None \<Rightarrow> Panic []
         | Some m \<Rightarrow> Next s [Log Debug ''Adapter message received:'',
                             GoHandleMessage m (q_Source q)]))"

text \<open>One iteration of the \<open>for\<close> loop of \<open>dispatcher\<close>, on the request received.\<close>

definition dispatch ::
  "externals \<Rightarrow> string \<Rightarrow> (nat \<Rightarrow> 8 word list) \<Rightarrow> dstate \<Rightarrow> dispatcherRequest \<Rightarrow> outcome" where
  "dispatch X secret rnd s req =
     (let q = Query req in
      case validate X q of
        Some err \<Rightarrow> Next s [Log Error ''Query failed to validate:'',
                            Log Info ''Invalid query received:'']
      | None \<Rightarrow>
          if q_Type q = ''command'' then
            (case q_Command q of
               None \<Rightarrow> Panic []
             | Some cmd \<Rightarrow>
                 if c_Action cmd = ''engage'' then engage X secret rnd s req cmd
                 else if c_Action cmd = ''disengage'' then disengage s q
                 else if c_Action cmd = ''register'' then register X s q cmd
                 else Next s [GoHandleCommand cmd (q_Source q)])
          else if q_Type q = ''message'' then routeMessage s q
          else Next s [Log Error ''Unhandlabe message, bad client code''])"

text \<open>
  How a run of the dispatcher over the requests received so far stands: waiting in the
  receive of the next iteration, or stopped in one of the ways of \<open>outcome\<close>, or past
  the loop with the quit channel signalled.
\<close>

datatype status = Receiving | Exited | Panicked | Deadlocked | Spinning | Returned

record run =
  run_status :: status
  run_state :: dstate
  run_effects :: "effect list"

fun dispatcherLoop ::
  "externals \<Rightarrow> string \<Rightarrow> (nat \<Rightarrow> 8 word list) \<Rightarrow> dstate \<Rightarrow> effect list
     \<Rightarrow> dispatcherRequest list \<Rightarrow> run" where
  "dispatcherLoop X secret rnd s acc [] =
     \<lparr>run_status = Receiving, run_state = s, run_effects = acc\<rparr>"
| "dispatcherLoop X secret rnd s acc (req # reqs) =
     (case dispatch X secret rnd s req of
        Next s' es \<Rightarrow> dispatcherLoop X secret rnd s' (acc @ es) reqs
      | FatalExit es \<Rightarrow> \<lparr>run_status = Exited, run_state = s, run_effects = acc @ es\<rparr>
      | Panic es \<Rightarrow> \<lparr>run_status = Panicked, run_state = s, run_effects = acc @ es\<rparr>
      | Blocked s' es \<Rightarrow> \<lparr>run_status = Deadlocked, run_state = s', run_effects = acc @ es\<rparr>
      | Spin \<Rightarrow> \<lparr>run_status = Spinning, run_state = s, run_effects = acc\<rparr>
      | LoopExit s' es \<Rightarrow>
          \<lparr>run_status = Returned, run_state = s', run_effects = acc @ es @ [QuitSend]\<rparr>)"

text \<open>\<open>dispatcher\<close> starts the loop with an empty connection table.\<close>

definition dispatcher ::
  "externals \<Rightarrow> string \<Rightarrow> (nat \<Rightarrow> 8 word list) \<Rightarrow> registry \<Rightarrow> dispatcherRequest list \<Rightarrow> run" where
  "dispatcher X secret rnd r reqs =
     dispatcherLoop X secret rnd \<lparr>connMap = Map.empty, reg = r, randReads = 0\<rparr> [] reqs"

text \<open>\<open>main\<close> waits on the quit channel after starting the dispatcher; it logs
  \<open>Exited normally\<close> only once the dispatcher has sent on that channel.\<close>

definition mainExitsNormally :: "run \<Rightarrow> bool" where
  "mainExitsNormally r = (QuitSend \<in> set (run_effects r))"

section \<open>The connection read task\<close>

text \<open>
  \<open>serve\<close> decodes envelopes from a connection in a loop. The model runs the loop over
  the results of the successive calls of \<open>decoder.Decode\<close>. The first envelope goes
  through \<open>initialize\<close>, which hands it to the dispatcher and waits for the identifier
  on a reply channel; \<open>reply\<close> gives the dispatcher's answer to a request (\<open>None\<close>
  when it never answers).
\<close>

datatype decoded = DecodeError string | Decoded query

datatype serve_effect = SLog level string | ToDispatcher dispatcherRequest | ConnClose

text \<open>How the loop stands: blocked in the next \<open>Decode\<close> with its two variables
  \<open>id\<close> and \<open>isAdapter\<close>, returned, panicked on a nil pointer, or blocked in
  \<open>initialize\<close> waiting for the dispatcher.\<close>

datatype serve_end = AwaitInput string bool | ServeReturned | ServePanic | ServeBlocked

definition prepend :: "'a list \<Rightarrow> 'a list \<times> 'b \<Rightarrow> 'a list \<times> 'b" where
  "prepend es r = (es @ fst r, snd r)"

definition initialize ::
  "externals \<Rightarrow> (dispatcherRequest \<Rightarrow> string option) \<Rightarrow> chan \<Rightarrow> query \<Rightarrow> encoder
     \<Rightarrow> serve_effect list \<times> (string + string) option" where
  "initialize X reply resp q enc =
     (case checkEngagement X q of
        Some err \<Rightarrow> ([], Some (Inl err))
      | None \<Rightarrow>
          (let r = \<lparr>Query = q, Encoder = Some enc, EngageResp = Some resp\<rparr>
           in case reply r of
                None \<Rightarrow> ([ToDispatcher r], None)
              | Some ident \<Rightarrow>
                  ([ToDispatcher r],
                   Some (if ident = '''' then Inl ''Error occured during engagement''
                         else Inr ident))))"

text \<open>What the loop body does with an envelope decoded after the handshake
  (\<open>id \<noteq> ""\<close>): forward it to the dispatcher, or log and \<open>continue\<close>, or panic on
  \<open>q.Command\<close> being nil. \<open>Skip\<close> carries the envelope as the body left it.\<close>

datatype verdict = Forward dispatcherRequest | Skip query "serve_effect list" | NilDeref

definition serveQuery :: "externals \<Rightarrow> encoder \<Rightarrow> string \<Rightarrow> bool \<Rightarrow> query \<Rightarrow> verdict" where
  "serveQuery X enc ident isAdapter q0 =
     (case validate X q0 of
        Some err \<Rightarrow> Skip q0 [SLog Error ''Failed to validate query:'']
      | None \<Rightarrow>
          (let q = q0\<lparr>q_Source := ident\<rparr> in
           if isAdapter then
             (if q_Type q \<noteq> ''command'' then
                Forward \<lparr>Query = q\<lparr>q_To := ''''\<rparr>, Encoder = Some enc, EngageResp = None\<rparr>
              else
                (case q_Command q of
                   None \<Rightarrow> NilDeref
                 | Some cmd \<Rightarrow>
                     (let q' = (if c_Action cmd \<noteq> ''info'' then q\<lparr>q_To := ''''\<rparr> else q)
                      in if c_Action cmd = ''register''
                         then Skip q' [SLog Error ''Adapter cannot register commands'']
                         else Forward \<lparr>Query = q', Encoder = Some enc, EngageResp = None\<rparr>)))
           else if q_To q = '''' then
             Skip q [SLog Error ''Responder query missing 'to' field'']
           else if q_Type q = ''message'' \<and> q_To q = ''server'' then
             Skip q [SLog Error (''Responder message cannot target '' @ [CHR 0x27] @ ''server'' @ [CHR 0x27])]
           else Forward \<lparr>Query = q, Encoder = Some enc, EngageResp = None\<rparr>))"

definition disengageRequest :: "string \<Rightarrow> dispatcherRequest" where
  "disengageRequest ident =
     \<lparr>Query = \<lparr>q_Type = ''command'', q_Source = ident, q_To = '''',
                q_Command = Some \<lparr>c_Action = ''disengage'', c_Id = '''', c_Type = '''',
                                  c_Data = '''', c_Array = [], c_Options = []\<rparr>,
                q_Message = None\<rparr>,
      Encoder = None, EngageResp = None\<rparr>"

fun serve ::
  "externals \<Rightarrow> (dispatcherRequest \<Rightarrow> string option) \<Rightarrow> chan \<Rightarrow> encoder \<Rightarrow> string \<Rightarrow> bool
     \<Rightarrow> decoded list \<Rightarrow> serve_effect list \<times> serve_end" where
  "serve X reply resp enc ident isAdapter [] = ([], AwaitInput ident isAdapter)"
| "serve X reply resp enc ident isAdapter (DecodeError err # rest) =
     (if err = ''EOF''
      then ([SLog Error err, ToDispatcher (disengageRequest ident)], ServeReturned)
      else prepend [SLog Error err] (serve X reply resp enc ident isAdapter rest))"
| "serve X reply resp enc ident isAdapter (Decoded q # rest) =
     (if ident = '''' then
        (case initialize X reply resp q enc of
           (es, None) \<Rightarrow> (es, ServeBlocked)
         | (es, Some (Inl err)) \<Rightarrow> (es @ [SLog Error ''Failed to engage:'', ConnClose], ServeReturned)
         | (es, Some (Inr ident')) \<Rightarrow>
             (case q_Command q of
                None \<Rightarrow> (es, ServePanic)
              | Some cmd \<Rightarrow>
                  prepend es (serve X reply resp enc ident'
                                (if c_Type cmd = ''adapter'' then True else isAdapter) rest)))
      else
        (case serveQuery X enc ident isAdapter q of
           Forward r \<Rightarrow> prepend [ToDispatcher r] (serve X reply resp enc ident isAdapter rest)
         | Skip q' es \<Rightarrow> prepend es (serve X reply resp enc ident isAdapter rest)
         | NilDeref \<Rightarrow> ([], ServePanic)))"

section \<open>Startup: the help pattern and the passive responders\<close>

text \<open>The expression \<open>"^" + conf.Help + "\\s*(\\w)*"\<close>; the character \<open>0x5C\<close> is the
  backslash.\<close>

definition helpPattern :: "string \<Rightarrow> string" where
  "helpPattern h = ''^'' @ h @ [CHR 0x5C] @ ''s*('' @ [CHR 0x5C] @ ''w)*''"

text \<open>Compiling \<open>pr.Match\<close> and \<open>pr.MentionMatch\<close> in order: the first expression
  that does not compile ends the process (\<open>Inl\<close> that expression).\<close>

fun compilePatterns :: "(string \<Rightarrow> string + regexp) \<Rightarrow> string list \<Rightarrow> string + regexp list" where
  "compilePatterns compile [] = Inr []"
| "compilePatterns compile (pattern # rest) =
     (case compile pattern of
        Inl err \<Rightarrow> Inl pattern
      | Inr rg \<Rightarrow>
          (case compilePatterns compile rest of
             Inl bad \<Rightarrow> Inl bad
           | Inr rgs \<Rightarrow> Inr (rg # rgs)))"

text \<open>\<open>subRegex\<close> matches two underscores, a captured decimal digit and two
  underscores; \<open>roomRegex\<close> is \<open>(__room__)\<close>;
  \<open>MatchString\<close> looks for a match anywhere in the argument.\<close>

definition isDigit :: "char \<Rightarrow> bool" where
  "isDigit c = (c \<in> set ''0123456789'')"

fun subRegexMatch :: "string \<Rightarrow> bool" where
  "subRegexMatch (a # b # c # d # e # rest) =
     ((a = CHR ''_'' \<and> b = CHR ''_'' \<and> isDigit c \<and> d = CHR ''_'' \<and> e = CHR ''_'')
      \<or> subRegexMatch (b # c # d # e # rest))"
| "subRegexMatch _ = False"

fun roomRegexMatch :: "string \<Rightarrow> bool" where
  "roomRegexMatch [] = False"
| "roomRegexMatch (c # rest) = (take 8 (c # rest) = ''__room__'' \<or> roomRegexMatch rest)"

text \<open>The loop over \<open>pr.Args\<close> that fills \<open>pr.substitute\<close> and \<open>pr.roomParam\<close>.\<close>

fun argMarks ::
  "nat \<Rightarrow> string list \<Rightarrow> (nat \<rightharpoonup> bool) \<times> (nat \<rightharpoonup> bool) \<Rightarrow> (nat \<rightharpoonup> bool) \<times> (nat \<rightharpoonup> bool)" where
  "argMarks i [] marks = marks"
| "argMarks i (arg # args) marks =
     argMarks (Suc i) args
       (if subRegexMatch arg then (fst marks)(i \<mapsto> True) else fst marks,
        if roomRegexMatch arg then (snd marks)(i \<mapsto> True) else snd marks)"

definition helpEntries :: "passiveResponderConfig \<Rightarrow> helpInfo list" where
  "helpEntries pr =
     map (\<lambda>cmd. \<lparr>hi_helpCmd = cmd, hi_helpMsg = pr_Help pr,
                 hi_noPrefix = pr_NoPrefix pr, hi_mention = False\<rparr>) (pr_HelpCmds pr)
     @ map (\<lambda>cmd. \<lparr>hi_helpCmd = cmd, hi_helpMsg = pr_Help pr,
                   hi_noPrefix = False, hi_mention = True\<rparr>) (pr_HelpMentionCmds pr)"

text \<open>The body of the loop over \<open>conf.Responders.Passive\<close>, for the responder at index
  \<open>i\<close>: \<open>Inl\<close> the text of the \<open>logger.Error.Fatal\<close> call that ends the process, or
  the responder with its compiled fields and the registries after the body.\<close>

definition passiveResponder ::
  "(string \<Rightarrow> string + regexp) \<Rightarrow> nat \<Rightarrow> passiveResponderConfig \<Rightarrow> registry
     \<Rightarrow> string + passiveResponderConfig \<times> registry" where
  "passiveResponder compile i pr r =
     (if pr_Match pr = [] then Inl ''Must specify at least one match for passive responder''
      else
        (case compilePatterns compile (pr_Match pr) of
           Inl bad \<Rightarrow> Inl ''Unable to parse expression:''
         | Inr rgs \<Rightarrow>
             (case compilePatterns compile (pr_MentionMatch pr) of
                Inl bad \<Rightarrow> Inl ''Unable to parse expression:''
              | Inr mrgs \<Rightarrow>
                  if rgs = [] then Inl ''Missing match or multimatch:''
                  else if pr_Cmd pr = '''' then Inl ''Passive Responder must have 'cmd' paramenter''
                  else
                    (let marks = argMarks 0 (pr_Args pr) (Map.empty, Map.empty);
                         pr' = pr\<lparr>pr_regex := rgs, pr_mRegex := mrgs,
                                  pr_substitute := fst marks, pr_roomParam := snd marks\<rparr>;
                         r1 = (if pr_NoPrefix pr
                               then r\<lparr>noPrefixPResponders := noPrefixPResponders r @ [i]\<rparr>
                               else r\<lparr>prefixPResponders := prefixPResponders r @ [i]\<rparr>);
                         r2 = (if mrgs \<noteq> []
                               then r1\<lparr>mentionPResponders := mentionPResponders r1 @ [i]\<rparr>
                               else r1)
                     in if pr_Help pr = '''' \<or> pr_HelpCmds pr = []
                        then Inl ''Missing help or help-commands for passive responder: ''
                        else Inr (pr', r2\<lparr>help_list := help_list r2 @ helpEntries pr\<rparr>)))))"

text \<open>The loop: \<open>ready\<close> holds the responders already gone through, so the index of
  the next one is its length.\<close>

fun passiveLoop ::
  "(string \<Rightarrow> string + regexp) \<Rightarrow> passiveResponderConfig list \<Rightarrow> registry
     \<Rightarrow> passiveResponderConfig list \<Rightarrow> string + passiveResponderConfig list \<times> registry" where
  "passiveLoop compile ready r [] = Inr (ready, r)"
| "passiveLoop compile ready r (pr # rest) =
     (case passiveResponder compile (length ready) pr r of
        Inl msg \<Rightarrow> Inl msg
      | Inr (pr', r') \<Rightarrow> passiveLoop compile (ready @ [pr']) r' rest)"

definition newRegistry :: registry where
  "newRegistry =
     \<lparr>prefixPResponders = [], noPrefixPResponders = [], mentionPResponders = [],
      prefixAResponders = [], noPrefixAResponders = [], mentionAResponders = [],
      unhandledAResponders = [], help_list = []\<rparr>"

text \<open>The part of \<open>main\<close> from the default of \<open>conf.Help\<close> to the end of the loop over
  the passive responders: the process exits in \<open>logger.Error.Fatal\<close>, or panics on
  \<open>conf.Responders\<close> being nil, or goes on with the configuration and registries.\<close>

datatype startup = Fatal string | NilPointer | Ready config registry

definition main_startup :: "(string \<Rightarrow> string + regexp) \<Rightarrow> config \<Rightarrow> startup" where
  "main_startup compile conf =
     (let conf1 = (if conf_Help conf = '''' then conf\<lparr>conf_Help := ''help''\<rparr> else conf)
      in case compile (helpPattern (conf_Help conf1)) of
           Inl err \<Rightarrow> Fatal ''Bad help command:''
         | Inr rg \<Rightarrow>
             (case conf_Responders conf1 of
                None \<Rightarrow> NilPointer
              | Some ps \<Rightarrow>
                  (case passiveLoop compile [] newRegistry ps of
                     Inl msg \<Rightarrow> Fatal msg
                   | Inr (ps', r) \<Rightarrow>
                       Ready (conf1\<lparr>conf_helpRegex := Some rg, conf_Responders := Some ps'\<rparr>) r)))"

definition isFatal :: "startup \<Rightarrow> bool" where
  "isFatal st = (case st of Fatal msg \<Rightarrow> True | _ \<Rightarrow> False)"

section \<open>Instances of the parameters\<close>

text \<open>
  The theorems below hold for every choice of the helper methods and of
  \<open>regexp.Compile\<close>. To run the model on concrete requests the parameters are
  instantiated as follows.
\<close>

text \<open>Modelled from the spec: \<open>validate\<close>, whose source is missing. The spec's
  invariant of an envelope: its type is \<open>command\<close> or \<open>message\<close> and it carries
  exactly the payload of its type.\<close>

definition validate_spec :: "query \<Rightarrow> string option" where
  "validate_spec q =
     (if q_Type q = ''command'' \<and> q_Command q \<noteq> None \<and> q_Message q = None then None
      else if q_Type q = ''message'' \<and> q_Message q \<noteq> None \<and> q_Command q = None then None
      else Some ''invalid envelope'')"

text \<open>Modelled from the spec: \<open>checkEngagement\<close>, whose source is missing. The first
  envelope of a connection must be an \<open>engage\<close> command.\<close>

definition checkEngagement_spec :: "query \<Rightarrow> string option" where
  "checkEngagement_spec q =
     (case q_Command q of
        None \<Rightarrow> Some ''not an engage command''
      | Some cmd \<Rightarrow>
          if q_Type q = ''command'' \<and> c_Action cmd = ''engage'' then None
          else Some ''not an engage command'')"

text \<open>Modelled from the spec: \<open>engageChk\<close>, whose source is missing. It validates a
  shared-secret credential; the spec does not say which field carries the credential,
  and this instance reads it from \<open>data\<close>.\<close>

definition engageChk_spec :: "commandBlock \<Rightarrow> string \<Rightarrow> string \<Rightarrow> string option" where
  "engageChk_spec cmd source secret =
     (if c_Data cmd = secret then None else Some ''credential rejected'')"

text \<open>Modelled from the spec: \<open>registerChk\<close>, whose source is missing. A register
  command supplies the pattern in \<open>data\<close>, the responder id in \<open>id\<close>, the help-trigger
  command and the help text as the two elements of \<open>array\<close>, and a classification in
  \<open>type\<close>.\<close>

definition registerChk_spec :: "commandBlock \<Rightarrow> string option" where
  "registerChk_spec cmd =
     (if c_Data cmd \<noteq> '''' \<and> c_Id cmd \<noteq> '''' \<and> length (c_Array cmd) = 2
         \<and> c_Type cmd \<in> set [''prefix'', ''noprefix'', ''mention'', ''unhandled'']
      then None else Some ''invalid register command'')"

text \<open>An instance of \<open>regexp.Compile\<close> for the expressions used below: it rejects an
  expression whose parentheses do not balance (as \<open>regexp.Compile\<close> does, with
  \<open>missing closing )\<close> or \<open>unexpected )\<close>) and accepts any other.\<close>

fun balanced :: "nat \<Rightarrow> string \<Rightarrow> bool" where
  "balanced d [] = (d = 0)"
| "balanced d (c # cs) =
     (if c = CHR ''('' then balanced (Suc d) cs
      else if c = CHR '')'' then (0 < d \<and> balanced (d - 1) cs)
      else balanced d cs)"

definition sampleCompile :: "string \<Rightarrow> string + regexp" where
  "sampleCompile e = (if balanced 0 e then Inr (Regexp e) else Inl ''error parsing regexp'')"

definition sampleExternals :: externals where
  "sampleExternals =
     \<lparr>validate = validate_spec, checkEngagement = checkEngagement_spec,
      engageChk = engageChk_spec, registerChk = registerChk_spec,
      regexpCompile = sampleCompile\<rparr>"

text \<open>A random source whose \<open>n\<close>-th read delivers eight bytes equal to \<open>n\<close>, and one
  whose every read fails after three bytes.\<close>

definition sampleRnd :: "nat \<Rightarrow> 8 word list" where
  "sampleRnd n = replicate 8 (of_nat n)"

definition failingRnd :: "nat \<Rightarrow> 8 word list" where
  "failingRnd n = [0xde, 0xad, of_nat n]"

definition emptyState :: dstate where
  "emptyState = \<lparr>connMap = Map.empty, reg = newRegistry, randReads = 0\<rparr>"

definition commandQuery :: "string \<Rightarrow> string \<Rightarrow> commandBlock \<Rightarrow> query" where
  "commandQuery source dest cmd =
     \<lparr>q_Type = ''command'', q_Source = source, q_To = dest, q_Command = Some cmd,
      q_Message = None\<rparr>"

definition messageQuery :: "string \<Rightarrow> string \<Rightarrow> string \<Rightarrow> query" where
  "messageQuery source dest txt =
     \<lparr>q_Type = ''message'', q_Source = source, q_To = dest, q_Command = None,
      q_Message = Some \<lparr>m_Message = txt, m_Room = ''lobby''\<rparr>\<rparr>"

definition engageCommand :: "string \<Rightarrow> string \<Rightarrow> commandBlock" where
  "engageCommand kind credential =
     \<lparr>c_Action = ''engage'', c_Id = '''', c_Type = kind, c_Data = credential,
      c_Array = [], c_Options = []\<rparr>"

definition registerCommand :: "string \<Rightarrow> string \<Rightarrow> string list \<Rightarrow> commandBlock" where
  "registerCommand kind pattern options =
     \<lparr>c_Action = ''register'', c_Id = ''echo'', c_Type = kind, c_Data = pattern,
      c_Array = [''echo'', ''repeats the text''], c_Options = options\<rparr>"

definition request :: "query \<Rightarrow> encoder \<Rightarrow> chan option \<Rightarrow> dispatcherRequest" where
  "request q enc resp = \<lparr>Query = q, Encoder = Some enc, EngageResp = resp\<rparr>"

text \<open>The state of a step that goes on to the next iteration.\<close>

definition nextState :: "outcome \<Rightarrow> dstate option" where
  "nextState out = (case out of Next s es \<Rightarrow> Some s | _ \<Rightarrow> None)"

definition nextEffects :: "outcome \<Rightarrow> effect list" where
  "nextEffects out = (case out of Next s es \<Rightarrow> es | _ \<Rightarrow> [])"

text \<open>The registries startup hands over, when it does.\<close>

definition readyRegistry :: "startup \<Rightarrow> registry option" where
  "readyRegistry st = (case st of Ready conf r \<Rightarrow> Some r | _ \<Rightarrow> None)"

text \<open>A passive responder as the configuration file gives it (the compiled fields
  still empty), with the given mention patterns, help text and help-trigger commands,
  and a configuration holding a list of responders.\<close>

definition samplePassive :: "string list \<Rightarrow> string \<Rightarrow> string list \<Rightarrow> passiveResponderConfig" where
  "samplePassive mentions helpText helpCmds =
     \<lparr>pr_Name = ''ping'', pr_Match = [''^ping$''], pr_MentionMatch = mentions,
      pr_NoPrefix = False, pr_FallThrough = False, pr_Cmd = ''echo'',
      pr_Args = [''__room__ says hi''], pr_Help = helpText, pr_HelpCmds = helpCmds,
      pr_HelpMentionCmds = [], pr_regex = [], pr_mRegex = [],
      pr_substitute = Map.empty, pr_roomParam = Map.empty\<rparr>"

definition sampleConfig :: "passiveResponderConfig list \<Rightarrow> config" where
  "sampleConfig ps =
     \<lparr>conf_Help = '''', conf_Secret = ''s3cret'', conf_Responders = Some ps,
      conf_helpRegex = None\<rparr>"

text \<open>The effects of a step, however it ends.\<close>

definition outcomeEffects :: "outcome \<Rightarrow> effect list" where
  "outcomeEffects out =
     (case out of
        Next s es \<Rightarrow> es
      | FatalExit es \<Rightarrow> es
      | Panic es \<Rightarrow> es
      | Blocked s es \<Rightarrow> es
      | Spin \<Rightarrow> []
      | LoopExit s es \<Rightarrow> es)"

text \<open>The state a step leaves the dispatcher in, when it leaves one: the loop goes on,
  or the dispatcher stays blocked in it.\<close>

definition outcomeState :: "outcome \<Rightarrow> dstate option" where
  "outcomeState out =
     (case out of
        Next s es \<Rightarrow> Some s
      | Blocked s es \<Rightarrow> Some s
      | LoopExit s es \<Rightarrow> Some s
      | _ \<Rightarrow> None)"

section \<open>Engagement: a rejected credential\<close>

text \<open>
  An engage command that comes with a reply channel, as the requests built by
  \<open>initialize\<close> do, and whose credential check fails: the dispatcher sends the empty
  string on the reply channel and closes it, writes to the connection a \<open>terminate\<close>
  command whose data is the reason of the failure, and leaves its state, the connection
  table included, as it was.
\<close>

theorem engage_rejected:
  assumes "validate X (Query req) = None"
    and "q_Type (Query req) = ''command''"
    and "q_Command (Query req) = Some cmd"
    and "c_Action cmd = ''engage''"
    and "Encoder req = Some enc"
    and "EngageResp req = Some ch"
    and "engageChk X cmd (q_Source (Query req)) secret = Some reason"
  shows "dispatch X secret rnd s req =
           Next s [Log Error ''Invalid engagement request'', ChanSend ch '''', ChanClose ch,
                   Encode enc (terminateQuery (q_Source (Query req)) reason)]
         \<and> map_option c_Action (q_Command (terminateQuery (q_Source (Query req)) reason))
             = Some ''terminate''
         \<and> map_option c_Data (q_Command (terminateQuery (q_Source (Query req)) reason))
             = Some reason"
  using assms by (simp add: dispatch_def engage_def terminateQuery_def)

theorem engage_rejected_witness:
  "dispatch sampleExternals ''s3cret'' sampleRnd emptyState
     (request (commandQuery ''bot'' '''' (engageCommand ''responder'' ''guess'')) 7 (Some 3))
   = Next emptyState
       [Log Error ''Invalid engagement request'', ChanSend 3 '''', ChanClose 3,
        Encode 7 (terminateQuery ''bot'' ''credential rejected'')]"
  using engage_rejected [of sampleExternals
      "request (commandQuery ''bot'' '''' (engageCommand ''responder'' ''guess'')) 7 (Some 3)"
      "engageCommand ''responder'' ''guess''" 7 3 "''s3cret''" "''credential rejected''"
      sampleRnd emptyState]
  by (simp add: sampleExternals_def validate_spec_def engageChk_spec_def request_def
      commandQuery_def engageCommand_def)

section \<open>Routing of addressed messages\<close>

text \<open>
  C4. A message envelope whose \<open>to\<close> is neither empty nor \<open>server\<close>: when \<open>to\<close> is a
  key of the connection table the envelope is encoded, unchanged, to the encoder stored
  under that key; otherwise an error is logged and nothing is written to any
  connection. In both cases the state is unchanged and the loop goes on with the next
  request.
\<close>

theorem message_routing:
  assumes "validate X (Query req) = None"
    and "q_Type (Query req) = ''message''"
    and "q_Message (Query req) = Some m"
    and "q_To (Query req) \<noteq> ''''"
    and "q_To (Query req) \<noteq> ''server''"
  shows "dispatch X secret rnd s req =
           Next s ([Log Debug ''Responder message received:'', Log Debug ''Query source:'']
                   @ (case connMap s (q_To (Query req)) of
                        Some encoder \<Rightarrow> [Encode encoder (Query req)]
                      | None \<Rightarrow> [Log Error ''Cannot find adapter source for'']))
         \<and> dispatcherLoop X secret rnd s acc (req # reqs) =
             dispatcherLoop X secret rnd s
               (acc @ [Log Debug ''Responder message received:'', Log Debug ''Query source:'']
                    @ (case connMap s (q_To (Query req)) of
                         Some encoder \<Rightarrow> [Encode encoder (Query req)]
                       | None \<Rightarrow> [Log Error ''Cannot find adapter source for''])) reqs"
proof -
  have step: "dispatch X secret rnd s req =
           Next s ([Log Debug ''Responder message received:'', Log Debug ''Query source:'']
                   @ (case connMap s (q_To (Query req)) of
                        Some encoder \<Rightarrow> [Encode encoder (Query req)]
                      | None \<Rightarrow> [Log Error ''Cannot find adapter source for'']))"
    using assms by (simp add: dispatch_def routeMessage_def split: option.splits)
  then show ?thesis by simp
qed

theorem message_routing_witness:
  "dispatch sampleExternals ''s3cret'' sampleRnd
     (emptyState\<lparr>connMap := [''slack'' \<mapsto> 5]\<rparr>)
     (request (messageQuery ''bot'' ''slack'' ''pong'') 7 None)
   = Next (emptyState\<lparr>connMap := [''slack'' \<mapsto> 5]\<rparr>)
       [Log Debug ''Responder message received:'', Log Debug ''Query source:'',
        Encode 5 (messageQuery ''bot'' ''slack'' ''pong'')]
   \<and> dispatch sampleExternals ''s3cret'' sampleRnd
     (emptyState\<lparr>connMap := [''slack'' \<mapsto> 5]\<rparr>)
     (request (messageQuery ''bot'' ''irc'' ''pong'') 7 None)
   = Next (emptyState\<lparr>connMap := [''slack'' \<mapsto> 5]\<rparr>)
       [Log Debug ''Responder message received:'', Log Debug ''Query source:'',
        Log Error ''Cannot find adapter source for'']"
  using message_routing [of sampleExternals
      "request (messageQuery ''bot'' ''slack'' ''pong'') 7 None"
      "\<lparr>m_Message = ''pong'', m_Room = ''lobby''\<rparr>" "''s3cret''" sampleRnd
      "emptyState\<lparr>connMap := [''slack'' \<mapsto> 5]\<rparr>" "[]" "[]"]
    message_routing [of sampleExternals
      "request (messageQuery ''bot'' ''irc'' ''pong'') 7 None"
      "\<lparr>m_Message = ''pong'', m_Room = ''lobby''\<rparr>" "''s3cret''" sampleRnd
      "emptyState\<lparr>connMap := [''slack'' \<mapsto> 5]\<rparr>" "[]" "[]"]
  by (simp add: sampleExternals_def validate_spec_def request_def messageQuery_def)

section \<open>Registration: a pattern that does not compile\<close>

text \<open>
  C6. A register command whose pattern does not compile: the dispatcher only logs; its
  state, with the four active-responder lists and the help list, is unchanged, nothing
  is written to the registering connection, and the loop goes on with the next request.
\<close>

theorem register_bad_pattern:
  assumes "validate X (Query req) = None"
    and "q_Type (Query req) = ''command''"
    and "q_Command (Query req) = Some cmd"
    and "c_Action cmd = ''register''"
    and "regexpCompile X (c_Data cmd) = Inl err"
  shows "dispatch X secret rnd s req =
           Next s [Log Debug ''Register command received:'',
                   Log Error (if registerChk X cmd = None then ''Error compiling regex:''
                              else ''Invalid register command:'')]
         \<and> dispatcherLoop X secret rnd s acc (req # reqs) =
             dispatcherLoop X secret rnd s
               (acc @ [Log Debug ''Register command received:'',
                       Log Error (if registerChk X cmd = None then ''Error compiling regex:''
                                  else ''Invalid register command:'')]) reqs"
proof -
  have step: "dispatch X secret rnd s req =
           Next s [Log Debug ''Register command received:'',
                   Log Error (if registerChk X cmd = None then ''Error compiling regex:''
                              else ''Invalid register command:'')]"
    using assms by (simp add: dispatch_def register_def split: option.splits)
  then show ?thesis by simp
qed

theorem register_bad_pattern_witness:
  "dispatch sampleExternals ''s3cret'' sampleRnd emptyState
     (request (commandQuery ''bot'' ''server'' (registerCommand ''prefix'' ''(echo'' [])) 7 None)
   = Next emptyState
       [Log Debug ''Register command received:'', Log Error ''Error compiling regex:'']"
  using register_bad_pattern [of sampleExternals
      "request (commandQuery ''bot'' ''server'' (registerCommand ''prefix'' ''(echo'' [])) 7 None"
      "registerCommand ''prefix'' ''(echo'' []" "''error parsing regexp''"
      "''s3cret''" sampleRnd emptyState "[]" "[]"]
  by (simp add: sampleExternals_def validate_spec_def registerChk_spec_def sampleCompile_def
      request_def commandQuery_def registerCommand_def)

section \<open>Identifiers\<close>

lemma length_hexChars: "length hexChars = 16"
  by (simp add: hexChars_def)

lemma length_hexByte: "length (hexByte w) = 2"
  by (simp add: hexByte_def)

lemma length_sprintf_x: "length (sprintf_x b) = 2 * length b"
  by (induction b) (simp_all add: sprintf_x_def length_hexByte)

lemma length_readFull: "length (readFull delivered b) = length b"
  by (simp add: readFull_def)

lemma length_generateId: "length (generateId delivered) = 16"
  by (simp add: generateId_def length_sprintf_x length_readFull)

lemma hexDigit_mem: "hexDigit n \<in> set hexChars"
  unfolding hexDigit_def by (rule nth_mem) (simp add: length_hexChars)

lemma set_hexByte: "set (hexByte w) \<subseteq> set hexChars"
  by (simp add: hexByte_def hexDigit_mem)

lemma set_sprintf_x: "set (sprintf_x b) \<subseteq> set hexChars"
proof (induction b)
  case Nil
  show ?case by (simp add: sprintf_x_def)
next
  case (Cons w b)
  have "sprintf_x (w # b) = hexByte w @ sprintf_x b"
    by (simp add: sprintf_x_def)
  with Cons set_hexByte [of w] show ?case by simp
qed

lemma set_generateId: "set (generateId delivered) \<subseteq> set hexChars"
  by (simp add: generateId_def set_sprintf_x)

lemma generateId_nonempty: "generateId delivered \<noteq> ''''"
  using length_generateId [of delivered] by auto

lemma uniqueId_free_start: "cm i = None \<Longrightarrow> uniqueId cm rnd n i = Some (i, n)"
  by (subst uniqueId.simps) simp

lemma uniqueId_taken:
  "cm i = Some e \<Longrightarrow> uniqueId cm rnd n i = uniqueId cm rnd (Suc n) (generateId (rnd n))"
  by (subst uniqueId.simps) simp

lemma uniqueId_regenerate:
  "cm (generateId (rnd (n + d))) = None \<Longrightarrow>
   (\<And>l. l < d \<Longrightarrow> cm (generateId (rnd (n + l))) \<noteq> None) \<Longrightarrow>
   uniqueId cm rnd (Suc n) (generateId (rnd n)) = Some (generateId (rnd (n + d)), Suc (n + d))"
proof (induction d arbitrary: n)
  case 0
  then have "cm (generateId (rnd n)) = None" by simp
  then show ?case by (simp add: uniqueId_free_start)
next
  case (Suc d)
  have "cm (generateId (rnd n)) \<noteq> None"
    using Suc.prems(2) [of 0] by simp
  then obtain e where e: "cm (generateId (rnd n)) = Some e" by blast
  have free: "cm (generateId (rnd (Suc n + d))) = None"
    using Suc.prems(1) by simp
  have before: "\<And>l. l < d \<Longrightarrow> cm (generateId (rnd (Suc n + l))) \<noteq> None"
    using Suc.prems(2) [of "Suc l" for l] by simp
  have "uniqueId cm rnd (Suc (Suc n)) (generateId (rnd (Suc n)))
          = Some (generateId (rnd (Suc n + d)), Suc (Suc n + d))"
    using free before by (rule Suc.IH)
  with e show ?case by (simp add: uniqueId_taken)
qed

lemma uniqueId_nonempty:
  "uniqueId cm rnd n i = Some y \<Longrightarrow> fst y = i \<or> length (fst y) = 16"
proof (rule uniqueId.raw_induct
    [where P = "\<lambda>cm rnd n i y. fst y = i \<or> length (fst y) = 16"
       and cm = cm and rnd = rnd and n = n and ident = i and y = y])
  show "uniqueId cm rnd n i = Some y" if "uniqueId cm rnd n i = Some y" using that .
next
  fix f :: "(string \<rightharpoonup> encoder) \<Rightarrow> (nat \<Rightarrow> 8 word list) \<Rightarrow> nat \<Rightarrow> string \<Rightarrow> (string \<times> nat) option"
  fix cm rnd n i y
  assume IH: "\<And>cm rnd n i y. f cm rnd n i = Some y \<Longrightarrow> fst y = i \<or> length (fst y) = 16"
    and body: "(case cm i of None \<Rightarrow> Some (i, n)
                | Some e \<Rightarrow> f cm rnd (Suc n) (generateId (rnd n))) = Some y"
  show "fst y = i \<or> length (fst y) = 16"
  proof (cases "cm i")
    case None
    with body show ?thesis by auto
  next
    case (Some e)
    with body have "f cm rnd (Suc n) (generateId (rnd n)) = Some y" by simp
    from IH [OF this] show ?thesis by (auto simp: length_generateId)
  qed
qed

lemma uniqueId_not_empty:
  assumes "uniqueId cm rnd n i = Some (ident, m)" and "i \<noteq> ''''"
  shows "ident \<noteq> ''''"
  using uniqueId_nonempty [OF assms(1)] assms(2) by auto

section \<open>Engagement: an accepted credential\<close>

lemma engage_keeps_free_id:
  assumes "Encoder req = Some enc" and "EngageResp req = Some ch"
    and "engageChk X cmd (q_Source (Query req)) secret = None"
    and "q_Source (Query req) \<noteq> ''''" and "connMap s (q_Source (Query req)) = None"
  shows "engage X secret rnd s req cmd =
           Next (s\<lparr>connMap := (connMap s)(q_Source (Query req) \<mapsto> enc), randReads := randReads s\<rparr>)
                [Log Info ''Engagement accepted: '', ChanSend ch (q_Source (Query req)),
                 ChanClose ch, Encode enc (proceedQuery (q_Source (Query req)))]"
  using assms by (simp add: engage_def Let_def uniqueId_free_start)

lemma engage_generates_id:
  assumes "Encoder req = Some enc" and "EngageResp req = Some ch"
    and "engageChk X cmd (q_Source (Query req)) secret = None"
    and "q_Source (Query req) = '''' \<or> connMap s (q_Source (Query req)) \<noteq> None"
    and free: "connMap s (generateId (rnd (randReads s + d))) = None"
    and before: "\<And>l. l < d \<Longrightarrow> connMap s (generateId (rnd (randReads s + l))) \<noteq> None"
  shows "engage X secret rnd s req cmd =
           Next (s\<lparr>connMap := (connMap s)(generateId (rnd (randReads s + d)) \<mapsto> enc),
                   randReads := Suc (randReads s + d)\<rparr>)
                ((if q_Source (Query req) \<noteq> ''''
                  then [Log Warn ''Requester's source id already taken, assign new source ID: '']
                  else [])
                 @ [Log Info ''Engagement accepted: '',
                    ChanSend ch (generateId (rnd (randReads s + d))), ChanClose ch,
                    Encode enc (proceedQuery (generateId (rnd (randReads s + d))))])"
proof -
  let ?g = "generateId (rnd (randReads s + d))"
  have regen: "uniqueId (connMap s) rnd (Suc (randReads s)) (generateId (rnd (randReads s)))
                 = Some (?g, Suc (randReads s + d))"
    using free before by (rule uniqueId_regenerate)
  show ?thesis
  proof (cases "q_Source (Query req) = ''''")
    case True
    with assms(1-3) regen show ?thesis
      by (simp add: engage_def Let_def)
  next
    case False
    with assms(4) obtain e where e: "connMap s (q_Source (Query req)) = Some e" by blast
    have loop: "uniqueId (connMap s) rnd (randReads s) (q_Source (Query req))
                  = Some (?g, Suc (randReads s + d))"
      using regen e by (simp add: uniqueId_taken)
    have differ: "?g \<noteq> q_Source (Query req)"
      using free e by auto
    from False assms(1-3) loop differ show ?thesis
      by (simp add: engage_def Let_def)
  qed
qed

lemma dispatch_engage:
  assumes "validate X (Query req) = None"
    and "q_Type (Query req) = ''command''"
    and "q_Command (Query req) = Some cmd"
    and "c_Action cmd = ''engage''"
  shows "dispatch X secret rnd s req = engage X secret rnd s req cmd"
  using assms by (simp add: dispatch_def)

text \<open>
  An engage command that passes the credential check and comes with an encoder and a
  reply channel, as the requests built by \<open>initialize\<close> do. The identifier chosen is
  the one the client supplied when that is not empty and not a key of the connection
  table; otherwise it is the first identifier drawn from the random source that is not a
  key of the table, a string of 16 hexadecimal characters (the draws before it were all
  keys of the table). The identifier was not a key of the table; it is installed bound
  to the request's encoder, every entry the table had is kept as it was, the identifier
  is sent on the reply channel, the channel is closed, and a \<open>proceed\<close> command
  addressed to the identifier with the identifier as data is encoded to the connection.
  The random source is assumed to deliver an identifier that is not in the table at some
  draw: without that the collision loop of the source does not end.
\<close>

theorem engage_accepted:
  assumes "validate X (Query req) = None"
    and "q_Type (Query req) = ''command''"
    and "q_Command (Query req) = Some cmd"
    and "c_Action cmd = ''engage''"
    and "Encoder req = Some enc"
    and "EngageResp req = Some ch"
    and "engageChk X cmd (q_Source (Query req)) secret = None"
    and "q_Source (Query req) = '''' \<or> connMap s (q_Source (Query req)) \<noteq> None
         \<longrightarrow> (\<exists>d. connMap s (generateId (rnd (randReads s + d))) = None)"
  shows "\<exists>ident n.
      dispatch X secret rnd s req =
        Next (s\<lparr>connMap := (connMap s)(ident \<mapsto> enc), randReads := n\<rparr>)
             ((if ident \<noteq> q_Source (Query req) \<and> q_Source (Query req) \<noteq> ''''
               then [Log Warn ''Requester's source id already taken, assign new source ID: '']
               else [])
              @ [Log Info ''Engagement accepted: '', ChanSend ch ident, ChanClose ch,
                 Encode enc (proceedQuery ident)])
      \<and> connMap s ident = None
      \<and> (if q_Source (Query req) \<noteq> '''' \<and> connMap s (q_Source (Query req)) = None
         then ident = q_Source (Query req) \<and> n = randReads s
         else length ident = 16 \<and> set ident \<subseteq> set hexChars
              \<and> (\<exists>d. ident = generateId (rnd (randReads s + d)) \<and> n = Suc (randReads s + d)
                       \<and> (\<forall>l<d. connMap s (generateId (rnd (randReads s + l))) \<noteq> None)))
      \<and> (\<forall>k e. connMap s k = Some e \<longrightarrow> ((connMap s)(ident \<mapsto> enc)) k = Some e)
      \<and> q_To (proceedQuery ident) = ident
      \<and> map_option c_Action (q_Command (proceedQuery ident)) = Some ''proceed''
      \<and> map_option c_Data (q_Command (proceedQuery ident)) = Some ident"
proof (cases "q_Source (Query req) \<noteq> '''' \<and> connMap s (q_Source (Query req)) = None")
  case True
  then have src: "q_Source (Query req) \<noteq> ''''" and free: "connMap s (q_Source (Query req)) = None"
    by simp_all
  have "dispatch X secret rnd s req =
          Next (s\<lparr>connMap := (connMap s)(q_Source (Query req) \<mapsto> enc), randReads := randReads s\<rparr>)
               [Log Info ''Engagement accepted: '', ChanSend ch (q_Source (Query req)),
                ChanClose ch, Encode enc (proceedQuery (q_Source (Query req)))]"
    using dispatch_engage [OF assms(1-4)] engage_keeps_free_id [OF assms(5-7) src free]
    by simp
  with True show ?thesis
    by (intro exI [of _ "q_Source (Query req)"] exI [of _ "randReads s"])
       (simp add: proceedQuery_def)
next
  case False
  then have coll: "q_Source (Query req) = '''' \<or> connMap s (q_Source (Query req)) \<noteq> None"
    by auto
  with assms(8) have ex: "\<exists>d. connMap s (generateId (rnd (randReads s + d))) = None" by blast
  define d where "d = (LEAST d. connMap s (generateId (rnd (randReads s + d))) = None)"
  have free: "connMap s (generateId (rnd (randReads s + d))) = None"
    unfolding d_def using ex by (rule LeastI_ex)
  have before: "\<And>l. l < d \<Longrightarrow> connMap s (generateId (rnd (randReads s + l))) \<noteq> None"
    unfolding d_def by (rule not_less_Least)
  let ?g = "generateId (rnd (randReads s + d))"
  have differ: "q_Source (Query req) \<noteq> '''' \<Longrightarrow> ?g \<noteq> q_Source (Query req)"
    using coll free by auto
  have step: "dispatch X secret rnd s req =
          Next (s\<lparr>connMap := (connMap s)(?g \<mapsto> enc), randReads := Suc (randReads s + d)\<rparr>)
               ((if ?g \<noteq> q_Source (Query req) \<and> q_Source (Query req) \<noteq> ''''
                 then [Log Warn ''Requester's source id already taken, assign new source ID: '']
                 else [])
                @ [Log Info ''Engagement accepted: '', ChanSend ch ?g, ChanClose ch,
                   Encode enc (proceedQuery ?g)])"
    using dispatch_engage [OF assms(1-4)]
      engage_generates_id [where rnd = rnd and d = d and s = s, OF assms(5-7) coll free before] differ
    by (cases "q_Source (Query req) = ''''") simp_all
  have shape: "length ?g = 16 \<and> set ?g \<subseteq> set hexChars"
    by (simp add: length_generateId set_generateId)
  have first: "\<exists>d'. ?g = generateId (rnd (randReads s + d')) \<and>
                 Suc (randReads s + d) = Suc (randReads s + d') \<and>
                 (\<forall>l<d'. connMap s (generateId (rnd (randReads s + l))) \<noteq> None)"
    using before by (intro exI [of _ d]) simp
  have kept: "\<forall>k e. connMap s k = Some e \<longrightarrow> ((connMap s)(?g \<mapsto> enc)) k = Some e"
    using free by auto
  have reply: "q_To (proceedQuery ?g) = ?g
      \<and> map_option c_Action (q_Command (proceedQuery ?g)) = Some ''proceed''
      \<and> map_option c_Data (q_Command (proceedQuery ?g)) = Some ?g"
    by (simp add: proceedQuery_def)
  show ?thesis
    apply (rule exI [of _ ?g])
    apply (rule exI [of _ "Suc (randReads s + d)"])
    using step free False shape first kept reply
    apply (simp only: if_False simp_thms)
    done
qed

section \<open>The dispatcher loop has no exit\<close>

lemma engage_no_loop_exit: "engage X secret rnd s req cmd \<noteq> LoopExit s' es"
  by (simp add: engage_def Let_def split: option.split prod.split)

lemma register_no_loop_exit: "register X s q cmd \<noteq> LoopExit s' es"
  by (simp add: register_def Let_def split: option.split sum.split list.split)

lemma dispatch_no_loop_exit: "dispatch X secret rnd s req \<noteq> LoopExit s' es"
  by (simp add: dispatch_def engage_no_loop_exit register_no_loop_exit disengage_def
      routeMessage_def Let_def split: option.split)

lemma engage_no_quit: "QuitSend \<notin> set (outcomeEffects (engage X secret rnd s req cmd))"
  by (simp add: engage_def outcomeEffects_def Let_def split: option.split prod.split)

lemma register_no_quit: "QuitSend \<notin> set (outcomeEffects (register X s q cmd))"
  by (simp add: register_def outcomeEffects_def Let_def split: option.split sum.split list.split)

lemma dispatch_no_quit: "QuitSend \<notin> set (outcomeEffects (dispatch X secret rnd s req))"
proof -
  have other: "QuitSend \<notin> set (outcomeEffects (disengage s q))"
    "QuitSend \<notin> set (outcomeEffects (routeMessage s q))" for q
    by (simp_all add: disengage_def routeMessage_def outcomeEffects_def split: option.split)
  have plain: "QuitSend \<notin> set (outcomeEffects (Next s es))" if "QuitSend \<notin> set es" for es
    using that by (simp add: outcomeEffects_def)
  have panic: "QuitSend \<notin> set (outcomeEffects (Panic []))"
    by (simp add: outcomeEffects_def)
  show ?thesis
    by (simp add: dispatch_def Let_def engage_no_quit register_no_quit other plain panic
        split: option.split)
qed

lemma loop_never_returns:
  "run_status (dispatcherLoop X secret rnd s acc reqs) \<noteq> Returned"
proof (induction reqs arbitrary: s acc)
  case Nil
  show ?case by simp
next
  case (Cons req reqs)
  show ?case
  proof (cases "dispatch X secret rnd s req")
    case (Next s' es)
    with Cons.IH show ?thesis by simp
  next
    case (LoopExit s' es)
    with dispatch_no_loop_exit show ?thesis by blast
  qed simp_all
qed

lemma loop_no_quit:
  "QuitSend \<notin> set acc \<Longrightarrow>
   QuitSend \<notin> set (run_effects (dispatcherLoop X secret rnd s acc reqs))"
proof (induction reqs arbitrary: s acc)
  case Nil
  then show ?case by simp
next
  case (Cons req reqs)
  have step: "QuitSend \<notin> set (outcomeEffects (dispatch X secret rnd s req))"
    by (rule dispatch_no_quit)
  show ?case
  proof (cases "dispatch X secret rnd s req")
    case (Next s' es)
    with step have "QuitSend \<notin> set (acc @ es)"
      using Cons.prems by (simp add: outcomeEffects_def)
    from Cons.IH [OF this] Next show ?thesis by simp
  next
    case (LoopExit s' es)
    with dispatch_no_loop_exit show ?thesis by blast
  qed (use step Cons.prems in \<open>simp_all add: outcomeEffects_def\<close>)
qed

text \<open>
  C9. The dispatcher never leaves its loop: whatever requests it receives, a run never
  ends with the loop left, the send on the quit channel that follows the loop is never
  made, and so \<open>main\<close>, which waits on that channel, never reaches its normal exit.
\<close>

theorem dispatcher_never_returns:
  "run_status (dispatcher X secret rnd r reqs) \<noteq> Returned
   \<and> QuitSend \<notin> set (run_effects (dispatcher X secret rnd r reqs))
   \<and> \<not> mainExitsNormally (dispatcher X secret rnd r reqs)"
proof -
  let ?start = "\<lparr>connMap = Map.empty, reg = r, randReads = 0\<rparr>"
  have run: "dispatcher X secret rnd r reqs = dispatcherLoop X secret rnd ?start [] reqs"
    by (simp add: dispatcher_def)
  have inside: "run_status (dispatcherLoop X secret rnd ?start [] reqs) \<noteq> Returned"
    by (rule loop_never_returns)
  have "QuitSend \<notin> set ([] :: effect list)"
    by simp
  then have silent: "QuitSend \<notin> set (run_effects (dispatcherLoop X secret rnd ?start [] reqs))"
    by (rule loop_no_quit)
  from inside silent show ?thesis
    unfolding run mainExitsNormally_def by simp
qed

section \<open>Keys of the connection table\<close>

lemma engage_start_nonempty:
  "fst (if src = '''' then (generateId b, Suc n) else (src, n)) \<noteq> ''''"
  by (simp add: generateId_nonempty)

lemma engage_keys:
  assumes "outcomeState (engage X secret rnd s req cmd) = Some s'"
    and "connMap s '''' = None"
  shows "connMap s' '''' = None"
proof (cases "Encoder req")
  case None
  with assms show ?thesis by (simp add: engage_def Let_def outcomeState_def)
next
  case enc: (Some enc)
  show ?thesis
  proof (cases "engageChk X cmd (q_Source (Query req)) secret")
    case (Some reason)
    with enc assms show ?thesis
      by (cases "EngageResp req") (auto simp: engage_def Let_def outcomeState_def)
  next
    case ok: None
    let ?start = "if q_Source (Query req) = ''''
                  then (generateId (rnd (randReads s)), Suc (randReads s))
                  else (q_Source (Query req), randReads s)"
    show ?thesis
    proof (cases "uniqueId (connMap s) rnd (snd ?start) (fst ?start)")
      case None
      with enc ok assms show ?thesis by (simp add: engage_def Let_def outcomeState_def)
    next
      case (Some y)
      obtain ident n where y: "y = (ident, n)" by (cases y)
      have "fst ?start \<noteq> ''''" by (rule engage_start_nonempty)
      with Some y have nonempty: "ident \<noteq> ''''"
        using uniqueId_not_empty by blast
      from enc ok Some y assms(1)
      have "s' = s\<lparr>connMap := (connMap s)(ident \<mapsto> enc), randReads := n\<rparr>"
        by (cases "EngageResp req") (auto simp: engage_def Let_def outcomeState_def)
      with nonempty assms(2) show ?thesis by simp
    qed
  qed
qed

lemma engage_empty_reply:
  assumes "engage X secret rnd s req cmd = Next s' es"
    and "ChanSend ch '''' \<in> set es"
  shows "s' = s \<and> (\<exists>reason. engageChk X cmd (q_Source (Query req)) secret = Some reason)"
proof (cases "Encoder req")
  case None
  with assms show ?thesis by (simp add: engage_def Let_def)
next
  case enc: (Some enc)
  show ?thesis
  proof (cases "engageChk X cmd (q_Source (Query req)) secret")
    case (Some reason)
    with enc assms show ?thesis
      by (cases "EngageResp req") (auto simp: engage_def Let_def)
  next
    case ok: None
    let ?start = "if q_Source (Query req) = ''''
                  then (generateId (rnd (randReads s)), Suc (randReads s))
                  else (q_Source (Query req), randReads s)"
    show ?thesis
    proof (cases "uniqueId (connMap s) rnd (snd ?start) (fst ?start)")
      case None
      with enc ok assms show ?thesis by (simp add: engage_def Let_def)
    next
      case (Some y)
      obtain ident n where y: "y = (ident, n)" by (cases y)
      have "fst ?start \<noteq> ''''" by (rule engage_start_nonempty)
      with Some y have nonempty: "ident \<noteq> ''''"
        using uniqueId_not_empty by blast
      from enc ok Some y assms nonempty show ?thesis
        by (cases "EngageResp req") (auto simp: engage_def Let_def split: if_splits)
    qed
  qed
qed

lemma register_keys:
  "outcomeState (register X s q cmd) = Some s' \<Longrightarrow> connMap s' = connMap s"
  by (auto simp: register_def outcomeState_def Let_def
      split: option.splits sum.splits list.splits)

lemma register_no_send: "register X s q cmd = Next s' es \<Longrightarrow> ChanSend ch v \<notin> set es"
  by (auto simp: register_def Let_def split: option.splits sum.splits list.splits)

lemma routeMessage_keys:
  "outcomeState (routeMessage s q) = Some s' \<Longrightarrow> s' = s"
  by (auto simp: routeMessage_def outcomeState_def split: option.splits if_splits)

lemma routeMessage_no_send: "routeMessage s q = Next s' es \<Longrightarrow> ChanSend ch v \<notin> set es"
  by (auto simp: routeMessage_def split: option.splits if_splits)

lemma dispatch_keys:
  assumes "outcomeState (dispatch X secret rnd s req) = Some s'"
    and "connMap s '''' = None"
  shows "connMap s' '''' = None"
proof (cases "validate X (Query req)")
  case (Some err)
  with assms show ?thesis by (simp add: dispatch_def Let_def outcomeState_def)
next
  case valid: None
  show ?thesis
  proof (cases "q_Type (Query req) = ''command''")
    case True
    show ?thesis
    proof (cases "q_Command (Query req)")
      case None
      with valid True assms show ?thesis by (simp add: dispatch_def Let_def outcomeState_def)
    next
      case (Some cmd)
      consider (engage) "c_Action cmd = ''engage''"
        | (disengage) "c_Action cmd = ''disengage''"
        | (register) "c_Action cmd = ''register''"
        | (other) "c_Action cmd \<noteq> ''engage''" "c_Action cmd \<noteq> ''disengage''"
            "c_Action cmd \<noteq> ''register''"
        by blast
      then show ?thesis
      proof cases
        case engage
        with valid True Some assms(1)
        have "outcomeState (engage X secret rnd s req cmd) = Some s'"
          by (simp add: dispatch_def Let_def)
        then show ?thesis using assms(2) by (rule engage_keys)
      next
        case disengage
        with valid True Some assms show ?thesis
          by (auto simp: dispatch_def Let_def disengage_def outcomeState_def split: if_splits)
      next
        case register
        with valid True Some assms(1)
        have "outcomeState (register X s (Query req) cmd) = Some s'"
          by (simp add: dispatch_def Let_def)
        from register_keys [OF this] assms(2) show ?thesis by simp
      next
        case other
        with valid True Some assms show ?thesis
          by (simp add: dispatch_def Let_def outcomeState_def)
      qed
    qed
  next
    case False
    with valid assms routeMessage_keys [of s "Query req" s'] show ?thesis
      by (auto simp: dispatch_def Let_def outcomeState_def split: if_splits)
  qed
qed

lemma dispatch_empty_reply:
  assumes "dispatch X secret rnd s req = Next s' es"
    and "ChanSend ch '''' \<in> set es"
  shows "s' = s \<and> (\<exists>cmd reason. q_Command (Query req) = Some cmd \<and> c_Action cmd = ''engage''
           \<and> engageChk X cmd (q_Source (Query req)) secret = Some reason)"
proof (cases "validate X (Query req)")
  case (Some err)
  with assms show ?thesis by (auto simp: dispatch_def Let_def)
next
  case valid: None
  show ?thesis
  proof (cases "q_Type (Query req) = ''command''")
    case True
    show ?thesis
    proof (cases "q_Command (Query req)")
      case None
      with valid True assms show ?thesis by (simp add: dispatch_def Let_def)
    next
      case (Some cmd)
      consider (engage) "c_Action cmd = ''engage''"
        | (disengage) "c_Action cmd = ''disengage''"
        | (register) "c_Action cmd = ''register''"
        | (other) "c_Action cmd \<noteq> ''engage''" "c_Action cmd \<noteq> ''disengage''"
            "c_Action cmd \<noteq> ''register''"
        by blast
      then show ?thesis
      proof cases
        case engage
        with valid True Some assms(1)
        have "engage X secret rnd s req cmd = Next s' es"
          by (simp add: dispatch_def Let_def)
        from engage_empty_reply [OF this assms(2)] Some engage show ?thesis by simp
      next
        case disengage
        with valid True Some assms show ?thesis
          by (auto simp: dispatch_def Let_def disengage_def split: if_splits)
      next
        case register
        with valid True Some assms(1)
        have "register X s (Query req) cmd = Next s' es"
          by (simp add: dispatch_def Let_def)
        from register_no_send [OF this] assms(2) show ?thesis by blast
      next
        case other
        with valid True Some assms show ?thesis
          by (auto simp: dispatch_def Let_def)
      qed
    qed
  next
    case False
    with valid assms routeMessage_no_send [of s "Query req" s' es ch "''''"] show ?thesis
      by (auto simp: dispatch_def Let_def split: if_splits)
  qed
qed

lemma loop_keys:
  "connMap s '''' = None \<Longrightarrow>
   connMap (run_state (dispatcherLoop X secret rnd s acc reqs)) '''' = None"
proof (induction reqs arbitrary: s acc)
  case Nil
  then show ?case by simp
next
  case (Cons req reqs)
  show ?case
  proof (cases "dispatch X secret rnd s req")
    case (Next s' es)
    then have "outcomeState (dispatch X secret rnd s req) = Some s'"
      by (simp add: outcomeState_def)
    then have "connMap s' '''' = None" using Cons.prems by (rule dispatch_keys)
    from Cons.IH [OF this] Next show ?thesis by simp
  next
    case (Blocked s' es)
    then have "outcomeState (dispatch X secret rnd s req) = Some s'"
      by (simp add: outcomeState_def)
    then have "connMap s' '''' = None" using Cons.prems by (rule dispatch_keys)
    with Blocked show ?thesis by simp
  next
    case (LoopExit s' es)
    with dispatch_no_loop_exit show ?thesis by blast
  qed (use Cons.prems in simp_all)
qed

text \<open>
  C10. \<open>generateId\<close> returns 16 lowercase hexadecimal characters whatever the random
  source delivered, a short or failed read included. In every run of the dispatcher the
  empty string is not a key of the connection table. A step that sends the empty string
  on an engagement reply channel is a step whose credential check failed, and it leaves
  the state unchanged.
\<close>

theorem generateId_shape_and_keys:
  "length (generateId delivered) = 16
   \<and> set (generateId delivered) \<subseteq> set hexChars
   \<and> connMap (run_state (dispatcher X secret rnd r reqs)) '''' = None
   \<and> (dispatch X secret rnd s req = Next s' es \<and> ChanSend ch '''' \<in> set es
        \<longrightarrow> s' = s \<and> (\<exists>cmd reason. q_Command (Query req) = Some cmd
                \<and> c_Action cmd = ''engage''
                \<and> engageChk X cmd (q_Source (Query req)) secret = Some reason))"
  using dispatch_empty_reply [of X secret rnd s req s' es ch]
  by (simp add: length_generateId set_generateId dispatcher_def loop_keys)

section \<open>Runs on concrete requests\<close>

lemma sample_identifiers:
  "generateId (sampleRnd 0) = ''0000000000000000''"
  "generateId (sampleRnd (Suc 0)) = ''0101010101010101''"
  "generateId (failingRnd 0) = ''dead000000000000''"
  by code_simp+

theorem engage_accepted_witness:
  "dispatch sampleExternals ''s3cret'' sampleRnd
     (emptyState\<lparr>connMap := [''bot'' \<mapsto> 5, ''0000000000000000'' \<mapsto> 6]\<rparr>)
     (request (commandQuery ''bot'' '''' (engageCommand ''responder'' ''s3cret'')) 7 (Some 3))
   = Next (emptyState\<lparr>connMap := [''bot'' \<mapsto> 5, ''0000000000000000'' \<mapsto> 6,
                                   ''0101010101010101'' \<mapsto> 7],
                       randReads := 2\<rparr>)
       [Log Warn ''Requester's source id already taken, assign new source ID: '',
        Log Info ''Engagement accepted: '', ChanSend 3 ''0101010101010101'', ChanClose 3,
        Encode 7 (proceedQuery ''0101010101010101'')]"
proof -
  define s where "s = emptyState\<lparr>connMap := [''bot'' \<mapsto> 5, ''0000000000000000'' \<mapsto> 6]\<rparr>"
  define req where
    "req = request (commandQuery ''bot'' '''' (engageCommand ''responder'' ''s3cret'')) 7 (Some 3)"
  have reads: "randReads s = 0" by (simp add: s_def emptyState_def)
  have src: "q_Source (Query req) = ''bot''"
    by (simp add: req_def request_def commandQuery_def)
  have taken0: "connMap s (generateId (sampleRnd 0)) = Some 6"
    by (simp add: s_def sample_identifiers)
  have free1: "connMap s (generateId (sampleRnd (Suc 0))) = None"
    by (simp add: s_def emptyState_def sample_identifiers)
  have h8: "q_Source (Query req) = '''' \<or> connMap s (q_Source (Query req)) \<noteq> None
         \<longrightarrow> (\<exists>d. connMap s (generateId (sampleRnd (randReads s + d))) = None)"
    using free1 reads by (intro impI exI [of _ "Suc 0"]) simp
  have taken: "connMap s (q_Source (Query req)) \<noteq> None"
    by (simp add: src s_def)
  have "\<exists>ident n.
      dispatch sampleExternals ''s3cret'' sampleRnd s req =
        Next (s\<lparr>connMap := (connMap s)(ident \<mapsto> 7), randReads := n\<rparr>)
             ((if ident \<noteq> q_Source (Query req) \<and> q_Source (Query req) \<noteq> ''''
               then [Log Warn ''Requester's source id already taken, assign new source ID: '']
               else [])
              @ [Log Info ''Engagement accepted: '', ChanSend 3 ident, ChanClose 3,
                 Encode 7 (proceedQuery ident)])
      \<and> connMap s ident = None
      \<and> (if q_Source (Query req) \<noteq> '''' \<and> connMap s (q_Source (Query req)) = None
         then ident = q_Source (Query req) \<and> n = randReads s
         else length ident = 16 \<and> set ident \<subseteq> set hexChars
              \<and> (\<exists>d. ident = generateId (sampleRnd (randReads s + d)) \<and> n = Suc (randReads s + d)
                       \<and> (\<forall>l<d. connMap s (generateId (sampleRnd (randReads s + l))) \<noteq> None)))
      \<and> (\<forall>k e. connMap s k = Some e \<longrightarrow> ((connMap s)(ident \<mapsto> 7)) k = Some e)
      \<and> q_To (proceedQuery ident) = ident
      \<and> map_option c_Action (q_Command (proceedQuery ident)) = Some ''proceed''
      \<and> map_option c_Data (q_Command (proceedQuery ident)) = Some ident"
    using h8
    by (intro engage_accepted [where cmd = "engageCommand ''responder'' ''s3cret''"])
       (simp_all add: sampleExternals_def validate_spec_def engageChk_spec_def req_def
          request_def commandQuery_def engageCommand_def)
  then obtain ident n where
    step: "dispatch sampleExternals ''s3cret'' sampleRnd s req =
        Next (s\<lparr>connMap := (connMap s)(ident \<mapsto> 7), randReads := n\<rparr>)
             ((if ident \<noteq> q_Source (Query req) \<and> q_Source (Query req) \<noteq> ''''
               then [Log Warn ''Requester's source id already taken, assign new source ID: '']
               else [])
              @ [Log Info ''Engagement accepted: '', ChanSend 3 ident, ChanClose 3,
                 Encode 7 (proceedQuery ident)])"
    and free: "connMap s ident = None"
    and choice: "if q_Source (Query req) \<noteq> '''' \<and> connMap s (q_Source (Query req)) = None
         then ident = q_Source (Query req) \<and> n = randReads s
         else length ident = 16 \<and> set ident \<subseteq> set hexChars
              \<and> (\<exists>d. ident = generateId (sampleRnd (randReads s + d)) \<and> n = Suc (randReads s + d)
                       \<and> (\<forall>l<d. connMap s (generateId (sampleRnd (randReads s + l))) \<noteq> None))"
    by blast
  from choice taken reads obtain d where
    ident: "ident = generateId (sampleRnd d)" and n: "n = Suc d"
    and before: "\<forall>l<d. connMap s (generateId (sampleRnd l)) \<noteq> None"
    by auto
  have "d \<noteq> 0"
  proof
    assume "d = 0"
    with ident free have "connMap s (generateId (sampleRnd 0)) = None" by simp
    with taken0 show False by simp
  qed
  moreover have "\<not> Suc 0 < d"
  proof
    assume "Suc 0 < d"
    with before have "connMap s (generateId (sampleRnd (Suc 0))) \<noteq> None" by blast
    with free1 show False by simp
  qed
  ultimately have d: "d = Suc 0" by simp
  have "ident = ''0101010101010101''" "n = 2"
    using ident n by (simp_all add: d sample_identifiers)
  with step src have "dispatch sampleExternals ''s3cret'' sampleRnd s req =
        Next (s\<lparr>connMap := (connMap s)(''0101010101010101'' \<mapsto> 7), randReads := 2\<rparr>)
          [Log Warn ''Requester's source id already taken, assign new source ID: '',
           Log Info ''Engagement accepted: '', ChanSend 3 ''0101010101010101'', ChanClose 3,
           Encode 7 (proceedQuery ''0101010101010101'')]"
    by simp
  then show ?thesis
    by (simp add: s_def req_def)
qed

text \<open>
  A request that carries an encoder and no reply channel is what \<open>serve\<close> forwards for
  an envelope decoded after the handshake. When such an envelope is an \<open>engage\<close>
  command, the dispatcher only logs and then stays in the send on the nil channel
  \<open>req.EngageResp\<close> (or in the collision loop): it writes nothing to the connection and
  receives no further request.
\<close>

lemma engage_without_reply_channel_stops:
  assumes "validate X (Query req) = None"
    and "q_Type (Query req) = ''command''"
    and "q_Command (Query req) = Some cmd"
    and "c_Action cmd = ''engage''"
    and "Encoder req = Some enc"
    and "EngageResp req = None"
  shows "run_status (dispatcherLoop X secret rnd s acc (req # reqs)) \<in> {Deadlocked, Spinning}"
    and "\<forall>e\<in>set (outcomeEffects (dispatch X secret rnd s req)). \<exists>l t. e = Log l t"
proof -
  have step: "dispatch X secret rnd s req = engage X secret rnd s req cmd"
    using assms(1-4) by (simp add: dispatch_def Let_def)
  have shape: "(\<exists>s' es. engage X secret rnd s req cmd = Blocked s' es \<and> (\<forall>e\<in>set es. \<exists>l t. e = Log l t))
               \<or> engage X secret rnd s req cmd = Spin"
    using assms(5,6)
    by (auto simp: engage_def Let_def split: option.splits prod.splits)
  from shape show "run_status (dispatcherLoop X secret rnd s acc (req # reqs)) \<in> {Deadlocked, Spinning}"
    unfolding dispatcherLoop.simps step by auto
  from shape show "\<forall>e\<in>set (outcomeEffects (dispatch X secret rnd s req)). \<exists>l t. e = Log l t"
    unfolding step by (auto simp: outcomeEffects_def)
qed

text \<open>
  C1, on an engage command sent again after the handshake. \<open>serve\<close> forwards the
  command with the connection's encoder and no reply channel. The credential check
  passes, a fresh identifier is installed in the connection table, and the dispatcher
  then blocks in the send on the nil reply channel: the identifier is sent to no one, no
  \<open>proceed\<close> command is written to the connection, and the message that follows is
  never handled.
\<close>

theorem second_engage_accepted_blocks:
  "serve sampleExternals Map.empty 3 7 ''slack'' True
     [Decoded (commandQuery '''' '''' (engageCommand ''adapter'' ''s3cret''))]
     = ([ToDispatcher (request (commandQuery ''slack'' '''' (engageCommand ''adapter'' ''s3cret''))
                         7 None)],
        AwaitInput ''slack'' True)
   \<and> dispatcher sampleExternals ''s3cret'' sampleRnd newRegistry
       [request (commandQuery ''slack'' '''' (engageCommand ''adapter'' ''s3cret'')) 7 (Some 3),
        request (commandQuery ''slack'' '''' (engageCommand ''adapter'' ''s3cret'')) 7 None,
        request (messageQuery ''slack'' '''' ''pris ping'') 7 None]
     = \<lparr>run_status = Deadlocked,
        run_state = \<lparr>connMap = [''slack'' \<mapsto> 7, ''0000000000000000'' \<mapsto> 7],
                     reg = newRegistry, randReads = 1\<rparr>,
        run_effects =
          [Log Info ''Engagement accepted: '', ChanSend 3 ''slack'', ChanClose 3,
           Encode 7 (proceedQuery ''slack''),
           Log Warn ''Requester's source id already taken, assign new source ID: '',
           Log Info ''Engagement accepted: '']\<rparr>"
  by (simp add: serveQuery_def prepend_def Let_def dispatcher_def dispatch_def engage_def
      uniqueId_free_start uniqueId_taken sample_identifiers sampleExternals_def
      validate_spec_def engageChk_spec_def request_def commandQuery_def engageCommand_def)

text \<open>
  C5, on an engage command sent again after the handshake with a credential that is
  rejected. The dispatcher logs the rejection and blocks in the send of the empty string
  on the nil reply channel: no \<open>terminate\<close> command is written to the connection, and
  the message that follows is never handled.
\<close>

theorem second_engage_rejected_blocks:
  "serve sampleExternals Map.empty 3 7 ''slack'' True
     [Decoded (commandQuery '''' '''' (engageCommand ''adapter'' ''guess''))]
     = ([ToDispatcher (request (commandQuery ''slack'' '''' (engageCommand ''adapter'' ''guess''))
                         7 None)],
        AwaitInput ''slack'' True)
   \<and> dispatcher sampleExternals ''s3cret'' sampleRnd newRegistry
       [request (commandQuery ''slack'' '''' (engageCommand ''adapter'' ''s3cret'')) 7 (Some 3),
        request (commandQuery ''slack'' '''' (engageCommand ''adapter'' ''guess'')) 7 None,
        request (messageQuery ''slack'' '''' ''pris ping'') 7 None]
     = \<lparr>run_status = Deadlocked,
        run_state = \<lparr>connMap = [''slack'' \<mapsto> 7], reg = newRegistry, randReads = 0\<rparr>,
        run_effects =
          [Log Info ''Engagement accepted: '', ChanSend 3 ''slack'', ChanClose 3,
           Encode 7 (proceedQuery ''slack''),
           Log Error ''Invalid engagement request'']\<rparr>"
  by (simp add: serveQuery_def prepend_def Let_def dispatcher_def dispatch_def engage_def
      uniqueId_free_start uniqueId_taken sample_identifiers sampleExternals_def
      validate_spec_def engageChk_spec_def request_def commandQuery_def engageCommand_def)

theorem generateId_shape_and_keys_witness:
  "length (generateId (failingRnd 0)) = 16
   \<and> set (generateId (failingRnd 0)) \<subseteq> set hexChars
   \<and> connMap (run_state (dispatcher sampleExternals ''s3cret'' sampleRnd newRegistry
        [request (commandQuery ''bot'' '''' (engageCommand ''responder'' ''s3cret'')) 7 (Some 3)]))
        '''' = None
   \<and> (\<exists>cmd reason.
         q_Command (Query (request (commandQuery ''bot'' '''' (engageCommand ''responder'' ''guess''))
                             7 (Some 3))) = Some cmd
         \<and> c_Action cmd = ''engage''
         \<and> engageChk sampleExternals cmd ''bot'' ''s3cret'' = Some reason)"
proof -
  define req where
    "req = request (commandQuery ''bot'' '''' (engageCommand ''responder'' ''guess'')) 7 (Some 3)"
  define es where
    "es = [Log Error ''Invalid engagement request'', ChanSend 3 '''', ChanClose 3,
           Encode 7 (terminateQuery ''bot'' ''credential rejected'')]"
  have step: "dispatch sampleExternals ''s3cret'' sampleRnd emptyState req = Next emptyState es"
    by (simp add: dispatch_def engage_def sampleExternals_def validate_spec_def
        engageChk_spec_def req_def request_def commandQuery_def engageCommand_def es_def)
  have sent: "ChanSend 3 '''' \<in> set es"
    by (simp add: es_def)
  have src: "q_Source (Query req) = ''bot''"
    by (simp add: req_def request_def commandQuery_def)
  from generateId_shape_and_keys [where delivered = "failingRnd 0" and X = sampleExternals
      and secret = "''s3cret''" and rnd = sampleRnd and r = newRegistry
      and reqs = "[request (commandQuery ''bot'' '''' (engageCommand ''responder'' ''s3cret'')) 7 (Some 3)]"
      and s = emptyState and req = req and s' = emptyState and es = es and ch = 3]
    step sent src
  show ?thesis unfolding req_def by simp
qed

lemma matchNextOf_fallthrough:
  "matchNextOf options m = (m \<or> ''fallthrough'' \<in> set options)"
  by (induction options arbitrary: m) auto

lemma register_accepted_step:
  assumes "registerChk X cmd = None"
    and "regexpCompile X (c_Data cmd) = Inr rx"
    and "c_Array cmd = a0 # a1 # others"
  shows "register X s q cmd =
     Next (s\<lparr>reg := (reg s)\<lparr>
              prefixAResponders := prefixAResponders (reg s)
                @ (if c_Type cmd = ''prefix''
                   then [\<lparr>ar_regex = rx, ar_source = q_Source q, ar_id = c_Id cmd,
                          ar_matchNext = (''fallthrough'' \<in> set (c_Options cmd)),
                          ar_helpCmd = a0, ar_help = a1\<rparr>] else []),
              noPrefixAResponders := noPrefixAResponders (reg s)
                @ (if c_Type cmd = ''noprefix''
                   then [\<lparr>ar_regex = rx, ar_source = q_Source q, ar_id = c_Id cmd,
                          ar_matchNext = (''fallthrough'' \<in> set (c_Options cmd)),
                          ar_helpCmd = a0, ar_help = a1\<rparr>] else []),
              mentionAResponders := mentionAResponders (reg s)
                @ (if c_Type cmd = ''mention''
                   then [\<lparr>ar_regex = rx, ar_source = q_Source q, ar_id = c_Id cmd,
                          ar_matchNext = (''fallthrough'' \<in> set (c_Options cmd)),
                          ar_helpCmd = a0, ar_help = a1\<rparr>] else []),
              unhandledAResponders := unhandledAResponders (reg s)
                @ (if c_Type cmd = ''unhandled''
                   then [\<lparr>ar_regex = rx, ar_source = q_Source q, ar_id = c_Id cmd,
                          ar_matchNext = (''fallthrough'' \<in> set (c_Options cmd)),
                          ar_helpCmd = a0, ar_help = a1\<rparr>] else []),
              help_list := help_list (reg s)
                @ (if c_Type cmd = ''prefix'' \<or> c_Type cmd = ''noprefix'' \<or> c_Type cmd = ''mention''
                   then [\<lparr>hi_helpCmd = a0, hi_helpMsg = a1,
                          hi_noPrefix = (c_Type cmd = ''noprefix''),
                          hi_mention = (c_Type cmd = ''mention'')\<rparr>] else [])\<rparr>\<rparr>)
          [Log Debug ''Register command received:'', Log Debug ''Active adapter registered:'']"
  using assms
  by (simp add: register_def Let_def pushHelp_def matchNextOf_fallthrough)

section \<open>Registration of an active responder\<close>

text \<open>
  C3 (amended). A register command that passes \<open>registerChk\<close>, whose pattern compiles
  and whose \<open>array\<close> has its two elements: the responder built has the registering
  connection's id as source and \<open>matchNext\<close> true exactly when \<open>options\<close> contains
  \<open>fallthrough\<close>; it is appended to the list selected by \<open>type\<close> and to no other;
  for the types \<open>prefix\<close>, \<open>noprefix\<close> and \<open>mention\<close> a help entry is appended
  (\<open>noPrefix\<close> set for \<open>noprefix\<close>, \<open>mention\<close> set for \<open>mention\<close>); for the type
  \<open>unhandled\<close> the help list is left as it was.
\<close>

theorem register_accepted:
  assumes "validate X (Query req) = None"
    and "q_Type (Query req) = ''command''"
    and "q_Command (Query req) = Some cmd"
    and "c_Action cmd = ''register''"
    and "registerChk X cmd = None"
    and "regexpCompile X (c_Data cmd) = Inr rx"
    and "c_Array cmd = a0 # a1 # others"
    and "ar = \<lparr>ar_regex = rx, ar_source = q_Source (Query req), ar_id = c_Id cmd,
               ar_matchNext = (''fallthrough'' \<in> set (c_Options cmd)),
               ar_helpCmd = a0, ar_help = a1\<rparr>"
  shows "dispatch X secret rnd s req =
     Next (s\<lparr>reg := (reg s)\<lparr>
              prefixAResponders := prefixAResponders (reg s)
                @ (if c_Type cmd = ''prefix'' then [ar] else []),
              noPrefixAResponders := noPrefixAResponders (reg s)
                @ (if c_Type cmd = ''noprefix'' then [ar] else []),
              mentionAResponders := mentionAResponders (reg s)
                @ (if c_Type cmd = ''mention'' then [ar] else []),
              unhandledAResponders := unhandledAResponders (reg s)
                @ (if c_Type cmd = ''unhandled'' then [ar] else []),
              help_list := help_list (reg s)
                @ (if c_Type cmd = ''prefix'' \<or> c_Type cmd = ''noprefix'' \<or> c_Type cmd = ''mention''
                   then [\<lparr>hi_helpCmd = a0, hi_helpMsg = a1,
                          hi_noPrefix = (c_Type cmd = ''noprefix''),
                          hi_mention = (c_Type cmd = ''mention'')\<rparr>] else [])\<rparr>\<rparr>)
          [Log Debug ''Register command received:'', Log Debug ''Active adapter registered:'']"
proof -
  have "dispatch X secret rnd s req = register X s (Query req) cmd"
    using assms(1-4) by (simp add: dispatch_def Let_def)
  then show ?thesis
    unfolding assms(8) using register_accepted_step [OF assms(5-7)] by simp
qed

theorem register_accepted_witness:
  "dispatch sampleExternals ''s3cret'' sampleRnd emptyState
     (request (commandQuery ''bot'' ''server'' (registerCommand ''noprefix'' ''^echo (.*)'' [''fallthrough''])) 7 None)
   = Next (emptyState\<lparr>reg := newRegistry\<lparr>
             noPrefixAResponders :=
               [\<lparr>ar_regex = Regexp ''^echo (.*)'', ar_source = ''bot'', ar_id = ''echo'',
                 ar_matchNext = True, ar_helpCmd = ''echo'', ar_help = ''repeats the text''\<rparr>],
             help_list :=
               [\<lparr>hi_helpCmd = ''echo'', hi_helpMsg = ''repeats the text'',
                 hi_noPrefix = True, hi_mention = False\<rparr>]\<rparr>\<rparr>)
       [Log Debug ''Register command received:'', Log Debug ''Active adapter registered:'']"
  using register_accepted [where X = sampleExternals and secret = "''s3cret''" and rnd = sampleRnd
      and s = emptyState
      and req = "request (commandQuery ''bot'' ''server''
                   (registerCommand ''noprefix'' ''^echo (.*)'' [''fallthrough''])) 7 None"
      and cmd = "registerCommand ''noprefix'' ''^echo (.*)'' [''fallthrough'']"
      and rx = "Regexp ''^echo (.*)''" and ?a0.0 = "''echo''" and ?a1.0 = "''repeats the text''"
      and others = "[]", OF _ _ _ _ _ _ _ refl]
  by (simp add: sampleExternals_def validate_spec_def registerChk_spec_def sampleCompile_def
      request_def commandQuery_def registerCommand_def emptyState_def newRegistry_def)

text \<open>
  C3 as stated fails for the type \<open>unhandled\<close>: the responder is registered in the
  \<open>unhandled\<close> list and the help list stays empty.
\<close>

theorem register_unhandled_no_help:
  "map_option (help_list \<circ> reg)
     (nextState (dispatch sampleExternals ''s3cret'' sampleRnd emptyState
        (request (commandQuery ''bot'' ''server'' (registerCommand ''unhandled'' ''.*'' [])) 7 None)))
   = Some []
   \<and> map_option (unhandledAResponders \<circ> reg)
     (nextState (dispatch sampleExternals ''s3cret'' sampleRnd emptyState
        (request (commandQuery ''bot'' ''server'' (registerCommand ''unhandled'' ''.*'' [])) 7 None)))
   = Some [\<lparr>ar_regex = Regexp ''.*'', ar_source = ''bot'', ar_id = ''echo'',
             ar_matchNext = False, ar_helpCmd = ''echo'', ar_help = ''repeats the text''\<rparr>]"
  by (simp add: dispatch_def register_def Let_def nextState_def sampleExternals_def
      validate_spec_def registerChk_spec_def sampleCompile_def request_def commandQuery_def
      registerCommand_def emptyState_def newRegistry_def)

section \<open>The connection boundary\<close>

lemma serve_post_handshake:
  "ident \<noteq> '''' \<Longrightarrow>
   serve X reply resp enc ident isAdapter (Decoded q # rest) =
     (case serveQuery X enc ident isAdapter q of
        Forward r \<Rightarrow> prepend [ToDispatcher r] (serve X reply resp enc ident isAdapter rest)
      | Skip q' es \<Rightarrow> prepend es (serve X reply resp enc ident isAdapter rest)
      | NilDeref \<Rightarrow> ([], ServePanic))"
  by simp

lemma serveQuery_adapter_register:
  assumes "q_Type q = ''command''" and "q_Command q = Some cmd" and "c_Action cmd = ''register''"
  shows "serveQuery X enc ident True q =
           (if validate X q = None
            then Skip (q\<lparr>q_Source := ident, q_To := ''''\<rparr>)
                      [SLog Error ''Adapter cannot register commands'']
            else Skip q [SLog Error ''Failed to validate query:''])"
  using assms by (auto simp: serveQuery_def Let_def split: option.splits)

lemma serveQuery_adapter_forward:
  assumes "serveQuery X enc ident True q = Forward r"
  shows "r = \<lparr>Query = q\<lparr>q_Source := ident,
                          q_To := (if q_Type q = ''command''
                                      \<and> map_option c_Action (q_Command q) = Some ''info''
                                   then q_To q else '''')\<rparr>,
              Encoder = Some enc, EngageResp = None\<rparr>"
  using assms by (auto simp: serveQuery_def Let_def split: option.splits if_splits)

lemma serveQuery_responder_reject:
  assumes "q_To q = '''' \<or> (q_Type q = ''message'' \<and> q_To q = ''server'')"
  shows "serveQuery X enc ident False q =
           (if validate X q \<noteq> None then Skip q [SLog Error ''Failed to validate query:'']
            else if q_To q = ''''
            then Skip (q\<lparr>q_Source := ident\<rparr>) [SLog Error ''Responder query missing 'to' field'']
            else Skip (q\<lparr>q_Source := ident\<rparr>)
                   [SLog Error (''Responder message cannot target '' @ [CHR 0x27] @ ''server''
                                @ [CHR 0x27])])"
  using assms by (auto simp: serveQuery_def Let_def split: option.splits)

text \<open>
  C2. Envelopes decoded after the handshake (\<open>id\<close> is not empty). On an adapter
  connection a register command is logged and skipped, and the loop goes on with the
  rest of the input with \<open>id\<close> and \<open>isAdapter\<close> as they were; every request the
  connection forwards for an envelope carries that envelope with the source replaced by
  \<open>id\<close> and with \<open>to\<close> emptied, unless it is a command with action \<open>info\<close>,
  whose \<open>to\<close> is kept. On a connection that is not an adapter an envelope with an empty
  \<open>to\<close>, and a message envelope with \<open>to\<close> equal to \<open>server\<close>, is logged and
  skipped, and the loop goes on. The connection is an adapter exactly when the command
  of its handshake envelope had type \<open>adapter\<close>.
\<close>

theorem serve_boundary_policy:
  assumes "ident \<noteq> ''''"
  shows "(q_Type q = ''command'' \<and> q_Command q = Some cmd \<and> c_Action cmd = ''register'' \<longrightarrow>
            serve X reply resp enc ident True (Decoded q # rest) =
              prepend [SLog Error (if validate X q = None
                                   then ''Adapter cannot register commands''
                                   else ''Failed to validate query:'')]
                      (serve X reply resp enc ident True rest))
       \<and> (\<forall>r. ToDispatcher r \<in> set (fst (serve X reply resp enc ident True [Decoded q])) \<longrightarrow>
            r = \<lparr>Query = q\<lparr>q_Source := ident,
                             q_To := (if q_Type q = ''command''
                                         \<and> map_option c_Action (q_Command q) = Some ''info''
                                      then q_To q else '''')\<rparr>,
                 Encoder = Some enc, EngageResp = None\<rparr>)
       \<and> (q_To q = '''' \<or> (q_Type q = ''message'' \<and> q_To q = ''server'') \<longrightarrow>
            serve X reply resp enc ident False (Decoded q # rest) =
              prepend [SLog Error
                         (if validate X q \<noteq> None then ''Failed to validate query:''
                          else if q_To q = '''' then ''Responder query missing 'to' field''
                          else ''Responder message cannot target '' @ [CHR 0x27] @ ''server''
                               @ [CHR 0x27])]
                      (serve X reply resp enc ident False rest))
       \<and> (checkEngagement X q = None
            \<and> reply \<lparr>Query = q, Encoder = Some enc, EngageResp = Some resp\<rparr> = Some ident
            \<and> q_Command q = Some cmd \<longrightarrow>
            serve X reply resp enc '''' False (Decoded q # rest) =
              prepend [ToDispatcher \<lparr>Query = q, Encoder = Some enc, EngageResp = Some resp\<rparr>]
                      (serve X reply resp enc ident (c_Type cmd = ''adapter'') rest))"
proof (intro conjI impI allI)
  assume "q_Type q = ''command'' \<and> q_Command q = Some cmd \<and> c_Action cmd = ''register''"
  then have "serveQuery X enc ident True q =
           (if validate X q = None
            then Skip (q\<lparr>q_Source := ident, q_To := ''''\<rparr>)
                      [SLog Error ''Adapter cannot register commands'']
            else Skip q [SLog Error ''Failed to validate query:''])"
    using serveQuery_adapter_register by blast
  then show "serve X reply resp enc ident True (Decoded q # rest) =
              prepend [SLog Error (if validate X q = None
                                   then ''Adapter cannot register commands''
                                   else ''Failed to validate query:'')]
                      (serve X reply resp enc ident True rest)"
    using assms by (simp add: serve_post_handshake)
next
  fix r
  assume sent: "ToDispatcher r \<in> set (fst (serve X reply resp enc ident True [Decoded q]))"
  have "serveQuery X enc ident True q = Forward r"
  proof (cases "serveQuery X enc ident True q")
    case (Forward r')
    with sent assms show ?thesis by (simp add: prepend_def)
  next
    case (Skip q' es)
    then have "\<forall>e\<in>set es. \<exists>l t. e = SLog l t"
      by (auto simp: serveQuery_def Let_def split: option.splits if_splits)
    with Skip sent assms show ?thesis by (auto simp: prepend_def)
  next
    case NilDeref
    with sent assms show ?thesis by simp
  qed
  then show "r = \<lparr>Query = q\<lparr>q_Source := ident,
                             q_To := (if q_Type q = ''command''
                                         \<and> map_option c_Action (q_Command q) = Some ''info''
                                      then q_To q else '''')\<rparr>,
                 Encoder = Some enc, EngageResp = None\<rparr>"
    by (rule serveQuery_adapter_forward)
next
  assume "q_To q = '''' \<or> (q_Type q = ''message'' \<and> q_To q = ''server'')"
  from serveQuery_responder_reject [OF this, of X enc ident] assms
  show "serve X reply resp enc ident False (Decoded q # rest) =
              prepend [SLog Error
                         (if validate X q \<noteq> None then ''Failed to validate query:''
                          else if q_To q = '''' then ''Responder query missing 'to' field''
                          else ''Responder message cannot target '' @ [CHR 0x27] @ ''server''
                               @ [CHR 0x27])]
                      (serve X reply resp enc ident False rest)"
    by (simp add: serve_post_handshake)
next
  assume "checkEngagement X q = None
            \<and> reply \<lparr>Query = q, Encoder = Some enc, EngageResp = Some resp\<rparr> = Some ident
            \<and> q_Command q = Some cmd"
  with assms show "serve X reply resp enc '''' False (Decoded q # rest) =
              prepend [ToDispatcher \<lparr>Query = q, Encoder = Some enc, EngageResp = Some resp\<rparr>]
                      (serve X reply resp enc ident (c_Type cmd = ''adapter'') rest)"
    by (simp add: initialize_def Let_def)
qed

theorem serve_boundary_policy_witness:
  "serve sampleExternals Map.empty 3 7 ''slack'' True
     [Decoded (commandQuery '''' ''bot'' (registerCommand ''prefix'' ''^x'' []))]
     = ([SLog Error ''Adapter cannot register commands''], AwaitInput ''slack'' True)
   \<and> serve sampleExternals Map.empty 3 7 ''bot'' False
     [Decoded (messageQuery '''' ''server'' ''hello'')]
     = ([SLog Error (''Responder message cannot target '' @ [CHR 0x27] @ ''server'' @ [CHR 0x27])],
        AwaitInput ''bot'' False)"
proof -
  have adapter: "''slack'' \<noteq> ''''" and responder: "''bot'' \<noteq> ''''"
    by simp_all
  from serve_boundary_policy [OF adapter, where X = sampleExternals and reply = Map.empty
      and resp = 3 and enc = 7 and rest = "[]"
      and q = "commandQuery '''' ''bot'' (registerCommand ''prefix'' ''^x'' [])"
      and cmd = "registerCommand ''prefix'' ''^x'' []"]
  have first: "serve sampleExternals Map.empty 3 7 ''slack'' True
     [Decoded (commandQuery '''' ''bot'' (registerCommand ''prefix'' ''^x'' []))]
     = ([SLog Error ''Adapter cannot register commands''], AwaitInput ''slack'' True)"
    by (simp add: prepend_def sampleExternals_def validate_spec_def commandQuery_def
        registerCommand_def)
  from serve_boundary_policy [OF responder, where X = sampleExternals and reply = Map.empty
      and resp = 3 and enc = 7 and rest = "[]"
      and q = "messageQuery '''' ''server'' ''hello''"]
  have second: "serve sampleExternals Map.empty 3 7 ''bot'' False
     [Decoded (messageQuery '''' ''server'' ''hello'')]
     = ([SLog Error (''Responder message cannot target '' @ [CHR 0x27] @ ''server'' @ [CHR 0x27])],
        AwaitInput ''bot'' False)"
    by (simp add: prepend_def sampleExternals_def validate_spec_def messageQuery_def)
  from first second show ?thesis by (rule conjI)
qed

lemma serve_adapter_example:
  "serve sampleExternals (\<lambda>r. Some ''slack'') 3 7 '''' False
     [Decoded (commandQuery '''' '''' (engageCommand ''adapter'' ''s3cret'')),
      Decoded (messageQuery ''x'' ''bot'' ''pris ping''),
      Decoded (commandQuery ''x'' ''bot'' (registerCommand ''prefix'' ''^x'' [])),
      DecodeError ''EOF'']
   = ([ToDispatcher \<lparr>Query = commandQuery '''' '''' (engageCommand ''adapter'' ''s3cret''),
                      Encoder = Some 7, EngageResp = Some 3\<rparr>,
       ToDispatcher \<lparr>Query = messageQuery ''slack'' '''' ''pris ping'',
                      Encoder = Some 7, EngageResp = None\<rparr>,
       SLog Error ''Adapter cannot register commands'',
       SLog Error ''EOF'',
       ToDispatcher (disengageRequest ''slack'')], ServeReturned)"
  by (simp add: initialize_def serveQuery_def prepend_def Let_def sampleExternals_def
      validate_spec_def checkEngagement_spec_def commandQuery_def messageQuery_def
      engageCommand_def registerCommand_def)

section \<open>Startup failures\<close>

lemma compilePatterns_fails:
  "isl (compilePatterns compile ps) \<longleftrightarrow> (\<exists>p\<in>set ps. isl (compile p))"
  by (induction ps) (auto split: sum.splits)

lemma compilePatterns_length:
  "compilePatterns compile ps = Inr rgs \<Longrightarrow> length rgs = length ps"
  by (induction ps arbitrary: rgs) (auto split: sum.splits)

lemma passiveResponder_fails:
  "isl (passiveResponder compile i pr r) \<longleftrightarrow>
     pr_Match pr = []
     \<or> (\<exists>p\<in>set (pr_Match pr) \<union> set (pr_MentionMatch pr). isl (compile p))
     \<or> pr_Cmd pr = '''' \<or> pr_Help pr = '''' \<or> pr_HelpCmds pr = []"
proof (cases "pr_Match pr = []")
  case True
  then show ?thesis by (simp add: passiveResponder_def)
next
  case nonempty: False
  show ?thesis
  proof (cases "compilePatterns compile (pr_Match pr)")
    case (Inl bad)
    then have "isl (compilePatterns compile (pr_Match pr))" by simp
    then have "\<exists>p\<in>set (pr_Match pr). isl (compile p)"
      by (simp add: compilePatterns_fails)
    with nonempty Inl show ?thesis by (auto simp: passiveResponder_def)
  next
    case rgs: (Inr rgs)
    then have "\<not> isl (compilePatterns compile (pr_Match pr))" by simp
    then have ok1: "\<not> (\<exists>p\<in>set (pr_Match pr). isl (compile p))"
      by (simp add: compilePatterns_fails)
    from rgs nonempty have rgs_ne: "rgs \<noteq> []"
      using compilePatterns_length by fastforce
    show ?thesis
    proof (cases "compilePatterns compile (pr_MentionMatch pr)")
      case (Inl bad)
      then have "isl (compilePatterns compile (pr_MentionMatch pr))" by simp
      then have "\<exists>p\<in>set (pr_MentionMatch pr). isl (compile p)"
        by (simp add: compilePatterns_fails)
      with nonempty rgs Inl show ?thesis by (auto simp: passiveResponder_def)
    next
      case (Inr mrgs)
      then have "\<not> isl (compilePatterns compile (pr_MentionMatch pr))" by simp
      then have ok2: "\<not> (\<exists>p\<in>set (pr_MentionMatch pr). isl (compile p))"
        by (simp add: compilePatterns_fails)
      from nonempty rgs Inr rgs_ne ok1 ok2 show ?thesis
        by (auto simp: passiveResponder_def Let_def)
    qed
  qed
qed

lemma passiveLoop_fails:
  "isl (passiveLoop compile ready r ps) \<longleftrightarrow>
     (\<exists>pr\<in>set ps.
        pr_Match pr = []
        \<or> (\<exists>p\<in>set (pr_Match pr) \<union> set (pr_MentionMatch pr). isl (compile p))
        \<or> pr_Cmd pr = '''' \<or> pr_Help pr = '''' \<or> pr_HelpCmds pr = [])"
  (is "_ \<longleftrightarrow> (\<exists>pr\<in>set ps. ?fault pr)")
proof (induction ps arbitrary: ready r)
  case Nil
  show ?case by simp
next
  case (Cons pr ps)
  have body: "isl (passiveResponder compile (length ready) pr r) = ?fault pr"
    by (rule passiveResponder_fails)
  show ?case
  proof (cases "passiveResponder compile (length ready) pr r")
    case (Inl msg)
    with body have "?fault pr" by simp
    then have "\<exists>pr'\<in>set (pr # ps). ?fault pr'" by (rule_tac x = pr in bexI) simp_all
    moreover have "isl (passiveLoop compile ready r (pr # ps))" using Inl by simp
    ultimately show ?thesis by (simp only: simp_thms)
  next
    case (Inr res)
    obtain pr' r' where res: "res = (pr', r')" by (cases res)
    from Inr body have ok: "\<not> ?fault pr" by simp
    have "isl (passiveLoop compile ready r (pr # ps))
            = isl (passiveLoop compile (ready @ [pr']) r' ps)"
      using Inr res by simp
    also have "\<dots> = (\<exists>pr\<in>set ps. ?fault pr)"
      by (rule Cons.IH)
    also have "\<dots> = (\<exists>pr'\<in>set (pr # ps). ?fault pr')"
      using ok by (simp only: list.set bex_simps ball_simps insert_iff Bex_def) blast
    finally show ?thesis .
  qed
qed

lemma main_startup_unfold:
  "main_startup compile conf =
     (case compile (helpPattern (if conf_Help conf = '''' then ''help'' else conf_Help conf)) of
        Inl err \<Rightarrow> Fatal ''Bad help command:''
      | Inr rg \<Rightarrow>
          (case conf_Responders conf of
             None \<Rightarrow> NilPointer
           | Some ps \<Rightarrow>
               (case passiveLoop compile [] newRegistry ps of
                  Inl msg \<Rightarrow> Fatal msg
                | Inr res \<Rightarrow>
                    Ready (conf\<lparr>conf_Help := (if conf_Help conf = '''' then ''help''
                                                  else conf_Help conf),
                               conf_helpRegex := Some rg,
                               conf_Responders := Some (fst res)\<rparr>) (snd res))))"
  by (cases "conf_Help conf = ''''")
     (simp_all add: main_startup_def Let_def split: sum.split option.split prod.split)

text \<open>
  C8 (amended). Startup ends in \<open>logger.Error.Fatal\<close> exactly when the help pattern
  does not compile, or some passive responder has no match pattern, a match or mention
  pattern that does not compile, an empty \<open>cmd\<close>, an empty help text, or no
  help-trigger command. A responder needs both its help text and a help-trigger command
  to pass.
\<close>

theorem startup_fatal_iff:
  "isFatal (main_startup compile conf) \<longleftrightarrow>
     isl (compile (helpPattern (if conf_Help conf = '''' then ''help'' else conf_Help conf)))
     \<or> (\<exists>ps. conf_Responders conf = Some ps
           \<and> (\<exists>pr\<in>set ps.
                 pr_Match pr = []
                 \<or> (\<exists>p\<in>set (pr_Match pr) \<union> set (pr_MentionMatch pr). isl (compile p))
                 \<or> pr_Cmd pr = '''' \<or> pr_Help pr = '''' \<or> pr_HelpCmds pr = []))"
proof (cases "compile (helpPattern (if conf_Help conf = '''' then ''help'' else conf_Help conf))")
  case (Inl err)
  then show ?thesis
    by (simp add: main_startup_unfold isFatal_def)
next
  case (Inr rg)
  show ?thesis
  proof (cases "conf_Responders conf")
    case None
    with Inr show ?thesis
      by (simp add: main_startup_unfold isFatal_def)
  next
    case (Some ps)
    have "isFatal (main_startup compile conf) = isl (passiveLoop compile [] newRegistry ps)"
      using Inr Some
      by (simp add: main_startup_unfold isFatal_def split: sum.split)
    with Inr Some show ?thesis
      by (simp add: passiveLoop_fails)
  qed
qed

theorem startup_fatal_iff_witness:
  "\<not> isFatal (main_startup sampleCompile
                  (sampleConfig [samplePassive [] ''replies pong'' [''ping'']]))"
  using startup_fatal_iff [of sampleCompile
      "sampleConfig [samplePassive [] ''replies pong'' [''ping'']]"]
  by (simp add: sampleConfig_def samplePassive_def sampleCompile_def helpPattern_def)

text \<open>
  C8 as stated fails: a responder with a help text and no help-trigger command, and one
  with a help-trigger command and no help text, each end startup in
  \<open>logger.Error.Fatal\<close>.
\<close>

theorem help_text_without_commands_is_fatal:
  "main_startup sampleCompile (sampleConfig [samplePassive [] ''replies pong'' []])
     = Fatal ''Missing help or help-commands for passive responder: ''
   \<and> main_startup sampleCompile (sampleConfig [samplePassive [] '''' [''ping'']])
     = Fatal ''Missing help or help-commands for passive responder: ''"
  by (simp add: main_startup_def passiveResponder_def Let_def sampleConfig_def
      samplePassive_def sampleCompile_def helpPattern_def)

text \<open>
  C7 as stated fails: a passive responder with a mention pattern is put in the prefix
  list and in the mention list.
\<close>

theorem passive_in_two_buckets:
  "map_option prefixPResponders
     (readyRegistry (main_startup sampleCompile
        (sampleConfig [samplePassive [''^hello$''] ''replies pong'' [''ping'']]))) = Some [0]
   \<and> map_option mentionPResponders
     (readyRegistry (main_startup sampleCompile
        (sampleConfig [samplePassive [''^hello$''] ''replies pong'' [''ping'']]))) = Some [0]"
  by (simp add: main_startup_def passiveResponder_def Let_def sampleConfig_def
      samplePassive_def sampleCompile_def helpPattern_def readyRegistry_def newRegistry_def)

lemma passiveResponder_buckets:
  assumes "passiveResponder compile i pr r = Inr (pr', r')"
  shows "prefixPResponders r' = prefixPResponders r @ (if pr_NoPrefix pr then [] else [i])"
    and "noPrefixPResponders r' = noPrefixPResponders r @ (if pr_NoPrefix pr then [i] else [])"
    and "mentionPResponders r' = mentionPResponders r @ (if pr_MentionMatch pr \<noteq> [] then [i] else [])"
proof -
  from assms obtain rgs mrgs where
    m: "compilePatterns compile (pr_MentionMatch pr) = Inr mrgs"
    and r': "r' = (let r1 = (if pr_NoPrefix pr
                               then r\<lparr>noPrefixPResponders := noPrefixPResponders r @ [i]\<rparr>
                               else r\<lparr>prefixPResponders := prefixPResponders r @ [i]\<rparr>);
                        r2 = (if mrgs \<noteq> []
                               then r1\<lparr>mentionPResponders := mentionPResponders r1 @ [i]\<rparr>
                               else r1)
                    in r2\<lparr>help_list := help_list r2 @ helpEntries pr\<rparr>)"
    by (auto simp: passiveResponder_def Let_def split: if_splits sum.splits)
  from m have len: "length mrgs = length (pr_MentionMatch pr)"
    by (rule compilePatterns_length)
  then have same: "(mrgs \<noteq> []) = (pr_MentionMatch pr \<noteq> [])" by auto
  show "prefixPResponders r' = prefixPResponders r @ (if pr_NoPrefix pr then [] else [i])"
    and "noPrefixPResponders r' = noPrefixPResponders r @ (if pr_NoPrefix pr then [i] else [])"
    and "mentionPResponders r' = mentionPResponders r @ (if pr_MentionMatch pr \<noteq> [] then [i] else [])"
    unfolding r' using same by (simp_all add: Let_def)
qed

lemma upt_filter_shift:
  "map (\<lambda>k. n + k) (filter (\<lambda>k. P ((x # xs) ! k)) [0..<Suc (length xs)])
     = (if P x then [n] else []) @ map (\<lambda>k. Suc n + k) (filter (\<lambda>k. P (xs ! k)) [0..<length xs])"
proof -
  have "[0..<Suc (length xs)] = 0 # map Suc [0..<length xs]"
    by (simp add: upt_conv_Cons map_Suc_upt del: upt_Suc)
  then show ?thesis
    by (simp add: filter_map o_def del: upt_Suc)
qed

lemma passiveLoop_buckets:
  assumes "passiveLoop compile ready r ps = Inr (ready', r')"
  shows "prefixPResponders r' = prefixPResponders r
           @ map (\<lambda>k. length ready + k) (filter (\<lambda>k. \<not> pr_NoPrefix (ps ! k)) [0..<length ps])"
    and "noPrefixPResponders r' = noPrefixPResponders r
           @ map (\<lambda>k. length ready + k) (filter (\<lambda>k. pr_NoPrefix (ps ! k)) [0..<length ps])"
    and "mentionPResponders r' = mentionPResponders r
           @ map (\<lambda>k. length ready + k)
               (filter (\<lambda>k. pr_MentionMatch (ps ! k) \<noteq> []) [0..<length ps])"
  using assms
proof (induction ps arbitrary: ready r)
  case Nil
  {
    case 1 then show ?case by simp
  next
    case 2 then show ?case by simp
  next
    case 3 then show ?case by simp
  }
next
  case (Cons pr ps)
  {
    case 1
    then obtain pr1 r1 where body: "passiveResponder compile (length ready) pr r = Inr (pr1, r1)"
      and rest: "passiveLoop compile (ready @ [pr1]) r1 ps = Inr (ready', r')"
      by (auto split: sum.splits)
    from Cons.IH(1) [OF rest] passiveResponder_buckets(1) [OF body]
    show ?case
      by (simp add: upt_filter_shift [where P = "\<lambda>p. \<not> pr_NoPrefix p"] del: upt_Suc)
  next
    case 2
    then obtain pr1 r1 where body: "passiveResponder compile (length ready) pr r = Inr (pr1, r1)"
      and rest: "passiveLoop compile (ready @ [pr1]) r1 ps = Inr (ready', r')"
      by (auto split: sum.splits)
    from Cons.IH(2) [OF rest] passiveResponder_buckets(2) [OF body]
    show ?case
      by (simp add: upt_filter_shift [where P = "pr_NoPrefix"] del: upt_Suc)
  next
    case 3
    then obtain pr1 r1 where body: "passiveResponder compile (length ready) pr r = Inr (pr1, r1)"
      and rest: "passiveLoop compile (ready @ [pr1]) r1 ps = Inr (ready', r')"
      by (auto split: sum.splits)
    from Cons.IH(3) [OF rest] passiveResponder_buckets(3) [OF body]
    show ?case
      by (simp add: upt_filter_shift [where P = "\<lambda>p. pr_MentionMatch p \<noteq> []"] del: upt_Suc)
  }
qed

lemma startup_buckets:
  assumes "main_startup compile conf = Ready conf' r" and "conf_Responders conf = Some ps"
  shows "prefixPResponders r = filter (\<lambda>i. \<not> pr_NoPrefix (ps ! i)) [0..<length ps]"
    and "noPrefixPResponders r = filter (\<lambda>i. pr_NoPrefix (ps ! i)) [0..<length ps]"
    and "mentionPResponders r = filter (\<lambda>i. pr_MentionMatch (ps ! i) \<noteq> []) [0..<length ps]"
proof -
  from assms obtain ps' where loop: "passiveLoop compile [] newRegistry ps = Inr (ps', r)"
    by (auto simp: main_startup_unfold split: sum.splits)
  show "prefixPResponders r = filter (\<lambda>i. \<not> pr_NoPrefix (ps ! i)) [0..<length ps]"
    using passiveLoop_buckets(1) [OF loop] by (simp add: newRegistry_def)
  show "noPrefixPResponders r = filter (\<lambda>i. pr_NoPrefix (ps ! i)) [0..<length ps]"
    using passiveLoop_buckets(2) [OF loop] by (simp add: newRegistry_def)
  show "mentionPResponders r = filter (\<lambda>i. pr_MentionMatch (ps ! i) \<noteq> []) [0..<length ps]"
    using passiveLoop_buckets(3) [OF loop] by (simp add: newRegistry_def)
qed

section \<open>Classification of responders\<close>

lemma count_list_filter_upt:
  "count_list (filter P [0..<n]) i = (if i < n \<and> P i then 1 else 0)"
  by (induction n) auto

text \<open>
  C7 (amended). After a startup that passes, the passive responder at index \<open>i\<close> is
  exactly once in the prefix and no-prefix lists taken together (in the no-prefix list
  when its \<open>noprefix\<close> flag is set, in the prefix list otherwise), and in addition once
  in the mention list exactly when it has mention patterns; no passive responder goes
  to an unhandled list. An active responder created by a register command whose type is
  one of \<open>prefix\<close>, \<open>noprefix\<close>, \<open>mention\<close>, \<open>unhandled\<close> is appended to the
  active list of that type and to no other.
\<close>

theorem responder_buckets:
  "(main_startup compile conf = Ready conf' r \<and> conf_Responders conf = Some ps \<longrightarrow>
       prefixPResponders r = filter (\<lambda>i. \<not> pr_NoPrefix (ps ! i)) [0..<length ps]
     \<and> noPrefixPResponders r = filter (\<lambda>i. pr_NoPrefix (ps ! i)) [0..<length ps]
     \<and> mentionPResponders r = filter (\<lambda>i. pr_MentionMatch (ps ! i) \<noteq> []) [0..<length ps]
     \<and> (\<forall>i<length ps.
           count_list (prefixPResponders r) i + count_list (noPrefixPResponders r) i = 1
           \<and> count_list (mentionPResponders r) i
               = (if pr_MentionMatch (ps ! i) = [] then 0 else 1)))
   \<and> (validate X (Query req) = None \<and> q_Type (Query req) = ''command''
       \<and> q_Command (Query req) = Some cmd \<and> c_Action cmd = ''register''
       \<and> registerChk X cmd = None \<and> regexpCompile X (c_Data cmd) = Inr rx
       \<and> c_Array cmd = a0 # a1 # others
       \<and> c_Type cmd \<in> set [''prefix'', ''noprefix'', ''mention'', ''unhandled'']
       \<and> ar = \<lparr>ar_regex = rx, ar_source = q_Source (Query req), ar_id = c_Id cmd,
                 ar_matchNext = (''fallthrough'' \<in> set (c_Options cmd)),
                 ar_helpCmd = a0, ar_help = a1\<rparr> \<longrightarrow>
       (\<exists>s' es. dispatch X secret rnd s req = Next s' es
          \<and> prefixAResponders (reg s') = prefixAResponders (reg s)
               @ (if c_Type cmd = ''prefix'' then [ar] else [])
          \<and> noPrefixAResponders (reg s') = noPrefixAResponders (reg s)
               @ (if c_Type cmd = ''noprefix'' then [ar] else [])
          \<and> mentionAResponders (reg s') = mentionAResponders (reg s)
               @ (if c_Type cmd = ''mention'' then [ar] else [])
          \<and> unhandledAResponders (reg s') = unhandledAResponders (reg s)
               @ (if c_Type cmd = ''unhandled'' then [ar] else [])
          \<and> length (prefixAResponders (reg s')) + length (noPrefixAResponders (reg s'))
              + length (mentionAResponders (reg s')) + length (unhandledAResponders (reg s'))
             = length (prefixAResponders (reg s)) + length (noPrefixAResponders (reg s))
              + length (mentionAResponders (reg s)) + length (unhandledAResponders (reg s)) + 1))"
proof (intro conjI impI)
  assume start: "main_startup compile conf = Ready conf' r \<and> conf_Responders conf = Some ps"
  then have run: "main_startup compile conf = Ready conf' r" and ps: "conf_Responders conf = Some ps"
    by simp_all
  note lists = startup_buckets [OF run ps]
  show "prefixPResponders r = filter (\<lambda>i. \<not> pr_NoPrefix (ps ! i)) [0..<length ps]"
    by (rule lists(1))
  show "noPrefixPResponders r = filter (\<lambda>i. pr_NoPrefix (ps ! i)) [0..<length ps]"
    by (rule lists(2))
  show "mentionPResponders r = filter (\<lambda>i. pr_MentionMatch (ps ! i) \<noteq> []) [0..<length ps]"
    by (rule lists(3))
  show "\<forall>i<length ps.
           count_list (prefixPResponders r) i + count_list (noPrefixPResponders r) i = 1
           \<and> count_list (mentionPResponders r) i
               = (if pr_MentionMatch (ps ! i) = [] then 0 else 1)"
    by (simp add: lists count_list_filter_upt)
next
  assume h: "validate X (Query req) = None \<and> q_Type (Query req) = ''command''
       \<and> q_Command (Query req) = Some cmd \<and> c_Action cmd = ''register''
       \<and> registerChk X cmd = None \<and> regexpCompile X (c_Data cmd) = Inr rx
       \<and> c_Array cmd = a0 # a1 # others
       \<and> c_Type cmd \<in> set [''prefix'', ''noprefix'', ''mention'', ''unhandled'']
       \<and> ar = \<lparr>ar_regex = rx, ar_source = q_Source (Query req), ar_id = c_Id cmd,
                 ar_matchNext = (''fallthrough'' \<in> set (c_Options cmd)),
                 ar_helpCmd = a0, ar_help = a1\<rparr>"
  then have disp: "dispatch X secret rnd s req = register X s (Query req) cmd"
    by (simp add: dispatch_def Let_def)
  from h have chk: "registerChk X cmd = None" and rx: "regexpCompile X (c_Data cmd) = Inr rx"
    and arr: "c_Array cmd = a0 # a1 # others"
    and kind: "c_Type cmd \<in> set [''prefix'', ''noprefix'', ''mention'', ''unhandled'']"
    and ar: "ar = \<lparr>ar_regex = rx, ar_source = q_Source (Query req), ar_id = c_Id cmd,
                 ar_matchNext = (''fallthrough'' \<in> set (c_Options cmd)),
                 ar_helpCmd = a0, ar_help = a1\<rparr>"
    by simp_all
  note step = register_accepted_step [OF chk rx arr, of s "Query req"]
  show "\<exists>s' es. dispatch X secret rnd s req = Next s' es
          \<and> prefixAResponders (reg s') = prefixAResponders (reg s)
               @ (if c_Type cmd = ''prefix'' then [ar] else [])
          \<and> noPrefixAResponders (reg s') = noPrefixAResponders (reg s)
               @ (if c_Type cmd = ''noprefix'' then [ar] else [])
          \<and> mentionAResponders (reg s') = mentionAResponders (reg s)
               @ (if c_Type cmd = ''mention'' then [ar] else [])
          \<and> unhandledAResponders (reg s') = unhandledAResponders (reg s)
               @ (if c_Type cmd = ''unhandled'' then [ar] else [])
          \<and> length (prefixAResponders (reg s')) + length (noPrefixAResponders (reg s'))
              + length (mentionAResponders (reg s')) + length (unhandledAResponders (reg s'))
             = length (prefixAResponders (reg s)) + length (noPrefixAResponders (reg s))
              + length (mentionAResponders (reg s)) + length (unhandledAResponders (reg s)) + 1"
  proof -
    define s' where "s' = the (nextState (register X s (Query req) cmd))"
    have out: "dispatch X secret rnd s req
                 = Next s' [Log Debug ''Register command received:'',
                            Log Debug ''Active adapter registered:'']"
      unfolding disp s'_def step by (simp add: nextState_def)
    have lists: "prefixAResponders (reg s') = prefixAResponders (reg s)
               @ (if c_Type cmd = ''prefix'' then [ar] else [])"
      "noPrefixAResponders (reg s') = noPrefixAResponders (reg s)
               @ (if c_Type cmd = ''noprefix'' then [ar] else [])"
      "mentionAResponders (reg s') = mentionAResponders (reg s)
               @ (if c_Type cmd = ''mention'' then [ar] else [])"
      "unhandledAResponders (reg s') = unhandledAResponders (reg s)
               @ (if c_Type cmd = ''unhandled'' then [ar] else [])"
      unfolding s'_def step ar by (simp_all add: nextState_def)
    have total: "length (prefixAResponders (reg s')) + length (noPrefixAResponders (reg s'))
              + length (mentionAResponders (reg s')) + length (unhandledAResponders (reg s'))
             = length (prefixAResponders (reg s)) + length (noPrefixAResponders (reg s))
              + length (mentionAResponders (reg s)) + length (unhandledAResponders (reg s)) + 1"
      unfolding lists using kind by auto
    from out lists total show ?thesis by blast
  qed
qed

theorem responder_buckets_witness:
  "prefixPResponders
     \<lparr>prefixPResponders = [0], noPrefixPResponders = [], mentionPResponders = [0],
      prefixAResponders = [], noPrefixAResponders = [], mentionAResponders = [],
      unhandledAResponders = [],
      help_list = [\<lparr>hi_helpCmd = ''ping'', hi_helpMsg = ''replies pong'',
                    hi_noPrefix = False, hi_mention = False\<rparr>]\<rparr>
   = filter (\<lambda>i. \<not> pr_NoPrefix ([samplePassive [''^hello$''] ''replies pong'' [''ping'']] ! i))
       [0..<length [samplePassive [''^hello$''] ''replies pong'' [''ping'']]]
   \<and> (\<exists>s' es. dispatch sampleExternals ''s3cret'' sampleRnd emptyState
         (request (commandQuery ''bot'' ''server'' (registerCommand ''mention'' ''^hi'' [])) 7 None)
         = Next s' es
       \<and> mentionAResponders (reg s')
           = [\<lparr>ar_regex = Regexp ''^hi'', ar_source = ''bot'', ar_id = ''echo'',
               ar_matchNext = False, ar_helpCmd = ''echo'', ar_help = ''repeats the text''\<rparr>]
       \<and> prefixAResponders (reg s') = [] \<and> noPrefixAResponders (reg s') = []
       \<and> unhandledAResponders (reg s') = [])"
proof -
  define conf where "conf = sampleConfig [samplePassive [''^hello$''] ''replies pong'' [''ping'']]"
  define r where "r =
     \<lparr>prefixPResponders = [0], noPrefixPResponders = [], mentionPResponders = [0],
      prefixAResponders = [], noPrefixAResponders = [], mentionAResponders = [],
      unhandledAResponders = [],
      help_list = [\<lparr>hi_helpCmd = ''ping'', hi_helpMsg = ''replies pong'',
                    hi_noPrefix = False, hi_mention = False\<rparr>]\<rparr>"
  have "\<exists>conf'. main_startup sampleCompile conf = Ready conf' r"
    by (simp add: main_startup_def passiveResponder_def Let_def conf_def sampleConfig_def
        samplePassive_def sampleCompile_def helpPattern_def newRegistry_def helpEntries_def r_def)
  then obtain conf' where run: "main_startup sampleCompile conf = Ready conf' r" ..
  have ps: "conf_Responders conf = Some [samplePassive [''^hello$''] ''replies pong'' [''ping'']]"
    by (simp add: conf_def sampleConfig_def)
  define req where
    "req = request (commandQuery ''bot'' ''server'' (registerCommand ''mention'' ''^hi'' [])) 7 None"
  define cmd where "cmd = registerCommand ''mention'' ''^hi'' []"
  have reg: "validate sampleExternals (Query req) = None \<and> q_Type (Query req) = ''command''
       \<and> q_Command (Query req) = Some cmd \<and> c_Action cmd = ''register''
       \<and> registerChk sampleExternals cmd = None
       \<and> regexpCompile sampleExternals (c_Data cmd) = Inr (Regexp ''^hi'')
       \<and> c_Array cmd = ''echo'' # ''repeats the text'' # []
       \<and> c_Type cmd \<in> set [''prefix'', ''noprefix'', ''mention'', ''unhandled'']"
    by (simp add: sampleExternals_def validate_spec_def registerChk_spec_def sampleCompile_def
        req_def cmd_def request_def commandQuery_def registerCommand_def)
  have kind: "c_Type cmd = ''mention''" and src: "q_Source (Query req) = ''bot''"
    and cid: "c_Id cmd = ''echo''" and opts: "c_Options cmd = []"
    by (simp_all add: req_def cmd_def request_def commandQuery_def registerCommand_def)
  have empty: "reg emptyState = newRegistry" by (simp add: emptyState_def)
  from responder_buckets [where compile = sampleCompile and conf = conf and conf' = conf'
      and r = r and ps = "[samplePassive [''^hello$''] ''replies pong'' [''ping'']]"
      and X = sampleExternals and req = req and cmd = cmd and rx = "Regexp ''^hi''"
      and ?a0.0 = "''echo''" and ?a1.0 = "''repeats the text''" and others = "[]"
      and secret = "''s3cret''" and rnd = sampleRnd and s = emptyState
      and ar = "\<lparr>ar_regex = Regexp ''^hi'', ar_source = q_Source (Query req), ar_id = c_Id cmd,
                 ar_matchNext = (''fallthrough'' \<in> set (c_Options cmd)),
                 ar_helpCmd = ''echo'', ar_help = ''repeats the text''\<rparr>"]
    run ps reg
  show ?thesis
    unfolding req_def [symmetric] r_def [symmetric]
    by (simp add: kind src cid opts empty newRegistry_def) blast
qed

end
